theory Spec2Isabelle
  imports Main
begin

section \<open>The dungeon game server: a shallow embedding\<close>

text \<open>
  The repository holds three generations of one Node.js server. The development follows the
  last one (the memory-aware server, \<^verbatim>\<open>src/unnamed/part_001\<close>) function by function, and
  embeds the action handler of the middle generation (\<^verbatim>\<open>src/app/index.js\<close>) beside it,
  where the two differ.

  Conventions of the embedding.
  \<^item> A JavaScript string is the list of its UTF-16 code units, so \<open>length\<close> is the
    program's \<^verbatim>\<open>.length\<close> and \<open>take 250\<close> is \<^verbatim>\<open>.slice(0, 250)\<close>. The Russian
    literals of the program are written as code-unit lists, with a translation beside them.
  \<^item> \<^verbatim>\<open>undefined\<close> is \<open>None\<close>; a value is truthy when it is \<open>Some\<close> non-empty string.
  \<^item> A socket is named by its id (the transport hands out each id once); its mutable
    fields \<^verbatim>\<open>username\<close> and \<^verbatim>\<open>roomId\<close> live in the server state, and a room's
    \<^verbatim>\<open>players\<close> array holds socket ids, so a name is read through the socket as the
    program does.
  \<^item> Room objects live in a store of addresses; the registry \<^verbatim>\<open>rooms\<close> maps a room id
    to an address. A timer callback that captured a room object keeps its address, also
    after the id was deleted from the registry.
  \<^item> Every call to the language model, the image service and the clock takes its result
    from an environment record: the model says nothing about what these services answer.
    Request bodies are not modelled, only that a request is made.
  \<^item> A socket handler runs as one step, from its first statement to its last. The callback
    of the two-second timer, the game master's narration pass, is two steps: the first
    asks the two adapters, the second runs when they have answered and works on the room
    as it is then. Between the two, any other step may run, also the steps of other passes
    on the same room. The first step waits more than once (the memory update asks the
    language model too) and is run here without interruption; the theorems use of it only
    the text it returns, what it sends, and which fields of the room it writes. The
    callback of the 120-second timer is a step of its own.
  \<^item> An exception that no handler catches ends the Node process; a step reports it as its
    outcome, with the state reached when it was thrown.
  \<^item> Room ids are not names of members of \<^verbatim>\<open>Object.prototype\<close>, so that the registry
    object behaves as a map.
\<close>

subsection \<open>Strings\<close>

type_synonym jsstring = "nat list"

definition ascii :: "string \<Rightarrow> jsstring" where
  "ascii s = map of_char s"

text \<open>Template literals print \<^verbatim>\<open>undefined\<close> for a missing value.\<close>

definition str_of :: "jsstring option \<Rightarrow> jsstring" where
  "str_of v = (case v of None \<Rightarrow> ascii ''undefined'' | Some s \<Rightarrow> s)"

definition truthy :: "jsstring option \<Rightarrow> bool" where
  "truthy v = (case v of None \<Rightarrow> False | Some s \<Rightarrow> s \<noteq> [])"

text \<open>\<^verbatim>\<open>a || b\<close> on strings.\<close>

definition js_or :: "jsstring \<Rightarrow> jsstring \<Rightarrow> jsstring" where
  "js_or a b = (if a = [] then b else a)"

fun nat_digits :: "nat \<Rightarrow> jsstring" where
  "nat_digits n = (if n < 10 then [48 + n] else nat_digits (n div 10) @ [48 + n mod 10])"

declare nat_digits.simps [simp del]

definition num_str :: "int \<Rightarrow> jsstring" where
  "num_str i = (if i < 0 then 45 # nat_digits (nat (- i)) else nat_digits (nat i))"

text \<open>
  \<^verbatim>\<open>String.prototype.toLowerCase\<close>, on the two alphabets of the program's texts: Basic
  Latin and Cyrillic. Other code units are left as they are. For the marker
  \<^verbatim>\<open>level complete\<close> nothing is lost: the only characters that Unicode lower-cases to one
  of its letters are the ASCII capitals.
\<close>

definition lower_unit :: "nat \<Rightarrow> nat" where
  "lower_unit c =
     (if 65 \<le> c \<and> c \<le> 90 then c + 32
      else if 1040 \<le> c \<and> c \<le> 1071 then c + 32
      else if 1024 \<le> c \<and> c \<le> 1039 then c + 80
      else c)"

definition toLowerCase :: "jsstring \<Rightarrow> jsstring" where
  "toLowerCase s = map lower_unit s"

definition startsWith :: "jsstring \<Rightarrow> jsstring \<Rightarrow> bool" where
  "startsWith s p = (take (length p) s = p)"

text \<open>\<^verbatim>\<open>String.prototype.includes\<close>: the needle starts at some position of the text.\<close>

fun includes_js :: "jsstring \<Rightarrow> jsstring \<Rightarrow> bool" where
  "includes_js [] p = (p = [])"
| "includes_js (c # s) p = (startsWith (c # s) p \<or> includes_js s p)"

definition is_space :: "nat \<Rightarrow> bool" where
  "is_space c =
     (c \<in> {9, 10, 11, 12, 13, 32, 160, 5760, 8232, 8233, 8239, 8287, 12288, 65279}
      \<or> (8192 \<le> c \<and> c \<le> 8202))"

definition trim :: "jsstring \<Rightarrow> jsstring" where
  "trim s = rev (dropWhile is_space (rev (dropWhile is_space s)))"

subsection \<open>The literals of the program\<close>

text \<open>The marker the game master's text is searched for.\<close>

definition level_marker :: jsstring where
  "level_marker = ascii ''level complete''"

text \<open>
  The canned narration of the fast-debug mode for the start of a game: "Before you is the
  dark entrance of an ancient dungeon. ..." (166 code units).
\<close>

definition canned_initial :: jsstring where
  "canned_initial =
    [1055, 1077, 1088, 1077, 1076, 32, 1074, 1072, 1084, 1080, 32, 1090, 1077, 1084, 1085,
     1099, 1081, 32, 1074, 1093, 1086, 1076, 32, 1074, 32, 1076, 1088, 1077, 1074, 1085,
     1077, 1077, 32, 1087, 1086, 1076, 1079, 1077, 1084, 1077, 1083, 1100, 1077, 46, 32,
     1052, 1072, 1089, 1089, 1080, 1074, 1085, 1099, 1077, 32, 1082, 1072, 1084, 1077, 1085,
     1085, 1099, 1077, 32, 1076, 1074, 1077, 1088, 1080, 32, 1087, 1086, 1082, 1088, 1099,
     1090, 1099, 32, 1088, 1091, 1085, 1072, 1084, 1080, 32, 1080, 32, 1084, 1093, 1086,
     1084, 46, 32, 1061, 1086, 1083, 1086, 1076, 1085, 1099, 1081, 32, 1074, 1086, 1079,
     1076, 1091, 1093, 32, 1074, 1077, 1077, 1090, 32, 1080, 1079, 32, 1095, 1077, 1088,
     1085, 1086, 1075, 1086, 32, 1087, 1088, 1086, 1077, 1084, 1072, 46, 32, 1057, 1083,
     1099, 1096, 1085, 1099, 32, 1089, 1090, 1088, 1072, 1085, 1085, 1099, 1077, 32, 1079,
     1074, 1091, 1082, 1080, 32, 1080, 1079, 32, 1075, 1083, 1091, 1073, 1080, 1085, 1099,
     46]"

text \<open>
  The canned narration of the fast-debug mode for every later call: "You advance deeper.
  The torches on the walls burn with a blue flame, ..." (145 code units).
\<close>

definition canned_next :: jsstring where
  "canned_next =
    [1042, 1099, 32, 1087, 1088, 1086, 1076, 1074, 1080, 1075, 1072, 1077, 1090, 1077, 1089,
     1100, 32, 1075, 1083, 1091, 1073, 1078, 1077, 46, 32, 1060, 1072, 1082, 1077, 1083,
     1099, 32, 1085, 1072, 32, 1089, 1090, 1077, 1085, 1072, 1093, 32, 1075, 1086, 1088,
     1103, 1090, 32, 1089, 1080, 1085, 1080, 1084, 32, 1087, 1083, 1072, 1084, 1077, 1085,
     1077, 1084, 44, 32, 1086, 1089, 1074, 1077, 1097, 1072, 1103, 32, 1084, 1088, 1072,
     1095, 1085, 1099, 1081, 32, 1082, 1086, 1088, 1080, 1076, 1086, 1088, 46, 32, 1042,
     1087, 1077, 1088, 1077, 1076, 1080, 32, 1074, 1080, 1076, 1085, 1077, 1077, 1090, 1089,
     1103, 32, 1088, 1072, 1079, 1074, 1080, 1083, 1082, 1072, 32, 1087, 1091, 1090, 1077,
     1081, 32, 1080, 32, 1089, 1083, 1099, 1096, 1085, 1086, 32, 1090, 1080, 1093, 1086,
     1077, 32, 1088, 1099, 1095, 1072, 1085, 1080, 1077, 46]"

text \<open>
  The narration returned when the request to the language model fails: "The game master is
  lost in thought... Continue the journey." (49 code units).
\<close>

definition gm_fallback :: jsstring where
  "gm_fallback =
    [1052, 1072, 1089, 1090, 1077, 1088, 32, 1080, 1075, 1088, 1099, 32, 1079, 1072, 1076,
     1091, 1084, 1072, 1083, 1089, 1103, 46, 46, 46, 32, 1055, 1088, 1086, 1076, 1086, 1083,
     1078, 1072, 1081, 1090, 1077, 32, 1087, 1091, 1090, 1077, 1096, 1077, 1089, 1090, 1074,
     1080, 1077, 46]"

text \<open>"Pass level " (the goal set in fast-debug mode, followed by the level number).\<close>

definition goal_fast_prefix :: jsstring where
  "goal_fast_prefix =
    [1055, 1088, 1086, 1081, 1090, 1080, 32, 1091, 1088, 1086, 1074, 1077, 1085, 1100, 32]"

text \<open>"Explore level " (the goal when the model gives none, followed by the level number).\<close>

definition goal_default_prefix :: jsstring where
  "goal_default_prefix =
    [1048, 1089, 1089, 1083, 1077, 1076, 1086, 1074, 1072, 1090, 1100, 32, 1091, 1088, 1086,
     1074, 1077, 1085, 1100, 32]"

text \<open>"Players are moving forward" (the summary when the model gives none).\<close>

definition summary_default :: jsstring where
  "summary_default =
    [1048, 1075, 1088, 1086, 1082, 1080, 32, 1087, 1088, 1086, 1076, 1074, 1080, 1075, 1072,
     1102, 1090, 1089, 1103, 32, 1074, 1087, 1077, 1088, 1077, 1076]"

text \<open>"Key events of the journey" (the compressed memory when the model gives none).\<close>

definition compressed_default :: jsstring where
  "compressed_default =
    [1050, 1083, 1102, 1095, 1077, 1074, 1099, 1077, 32, 1089, 1086, 1073, 1099, 1090, 1080,
     1103, 32, 1087, 1091, 1090, 1077, 1096, 1077, 1089, 1090, 1074, 1080, 1103]"

text \<open>"A new goal will be determined" (sent with a level-complete event without a goal).\<close>

definition new_goal_default :: jsstring where
  "new_goal_default =
    [1053, 1086, 1074, 1072, 1103, 32, 1094, 1077, 1083, 1100, 32, 1073, 1091, 1076, 1077,
     1090, 32, 1086, 1087, 1088, 1077, 1076, 1077, 1083, 1077, 1085, 1072]"

subsection \<open>Configuration, environment, rooms\<close>

text \<open>
  \<^verbatim>\<open>DEBUG_MODE\<close> is a constant of the module, \<^verbatim>\<open>FAST_DEBUG\<close> and \<^verbatim>\<open>DOMAIN\<close> are read from
  the process environment, which the program never writes.
\<close>

record config =
  DEBUG_MODE :: bool
  FAST_DEBUG :: bool
  DOMAIN :: "jsstring option"

text \<open>
  What the outside world answers during one handler run. A reply of the language model is
  \<open>None\<close> when the request fails, the status is not OK or the body has no content.
  \<open>image_reply\<close> is \<open>Some t\<close> when the image arrived and was written at clock reading \<open>t\<close>.
\<close>

record env =
  goal_reply :: "jsstring option"
  summary_reply :: "jsstring option"
  compress_reply :: "jsstring option"
  narration_reply :: "jsstring option"
  image_reply :: "int option"
  summary_time :: int
  compress_time :: int

type_synonym sid = jsstring
type_synonym rid = jsstring
type_synonym addr = nat

datatype turn = GM | Num int

record memory =
  mem_level :: int
  summary :: jsstring
  timestamp :: int

record room_state =
  level :: int
  turn :: turn
  history :: "jsstring list"
  levelGoals :: "int \<Rightarrow> jsstring option"
  gameMemory :: "memory list"
  levelMemory :: jsstring

record room =
  players :: "sid list"
  state :: room_state
  timeout :: bool

subsection \<open>Events and other effects\<close>

text \<open>
  The messages of the \<^verbatim>\<open>error\<close> event, in the order of the source: "you are already in
  a room", "room not found", "the room is full", "it is not your turn now", "an error
  occurred while processing the action", "an error occurred while starting the game", "not
  enough players to start the game".
\<close>

datatype error_message =
  AlreadyInRoom | RoomNotFound | RoomFull | NotYourTurn | ActionFailed | StartFailed
  | NotEnoughPlayers

datatype event =
  ErrorEvent error_message
  | RoomCreated rid
  | PlayersUpdate "jsstring list"
  | GameStart jsstring jsstring
  | GmUpdate jsstring jsstring
  | SayMessage "jsstring option" jsstring
  | PlayerTurn int
  | GmTurn
  | PlayerLeft jsstring
  | LevelComplete int jsstring
  | GameEnd

datatype llm_request = GoalRequest | SummaryRequest | CompressRequest | NarrationRequest

text \<open>
  \<open>ToSocket\<close> is \<^verbatim>\<open>socket.emit\<close>, \<open>ToRoom\<close> is \<^verbatim>\<open>io.to(roomId).emit\<close>; the other three
  are the outbound requests and the file written by the image adapter.
\<close>

datatype effect =
  ToSocket sid event
  | ToRoom rid event
  | LlmCall llm_request
  | ImageCall jsstring
  | FileWrite jsstring

subsection \<open>Image generation adapter\<close>

definition fallback_image :: "config \<Rightarrow> jsstring" where
  "fallback_image cfg = str_of (DOMAIN cfg) @ ascii ''/fallback-image.png''"

definition image_name :: "int \<Rightarrow> jsstring" where
  "image_name t = ascii ''image_'' @ num_str t @ ascii ''.png''"

definition image_prompt :: "jsstring \<Rightarrow> jsstring" where
  "image_prompt description =
     ascii ''Dark fantasy dungeon scene: '' @ description @ ascii ''. Moody, gothic, high detail.''"

definition generateImage :: "config \<Rightarrow> env \<Rightarrow> jsstring \<Rightarrow> jsstring \<times> effect list" where
  "generateImage cfg env description =
     (if FAST_DEBUG cfg then (fallback_image cfg, [])
      else case image_reply env of
             None \<Rightarrow> (fallback_image cfg, [ImageCall (image_prompt description)])
           | Some t \<Rightarrow>
               (str_of (DOMAIN cfg) @ ascii ''/images/'' @ image_name t,
                [ImageCall (image_prompt description), FileWrite (image_name t)]))"

subsection \<open>Game memory summarizer\<close>

text \<open>
  \<^verbatim>\<open>fetchMistral\<close>: the trimmed content of the reply, or the empty string when there is
  none or the request throws.
\<close>

definition fetchMistral :: "jsstring option \<Rightarrow> jsstring" where
  "fetchMistral reply = (case reply of None \<Rightarrow> [] | Some content \<Rightarrow> js_or (trim content) [])"

definition slice_last :: "nat \<Rightarrow> 'a list \<Rightarrow> 'a list" where
  "slice_last n xs = drop (length xs - n) xs"

definition has_goal :: "room \<Rightarrow> bool" where
  "has_goal r = truthy (levelGoals (state r) (level (state r)))"

definition set_goal :: "jsstring \<Rightarrow> room \<Rightarrow> room" where
  "set_goal g r =
     r\<lparr>state := (state r)\<lparr>levelGoals := (levelGoals (state r))(level (state r) := Some g)\<rparr>\<rparr>"

text \<open>The first block of \<^verbatim>\<open>updateGameMemory\<close>: a goal for a level that has none.\<close>

definition update_goal :: "env \<Rightarrow> room \<Rightarrow> room \<times> effect list" where
  "update_goal env r =
     (if \<not> has_goal r then
        (set_goal (js_or (fetchMistral (goal_reply env))
                     (goal_default_prefix @ num_str (level (state r)))) r,
         [LlmCall GoalRequest])
      else (r, []))"

text \<open>The second block: more than four history lines are summarised and cut to two.\<close>

definition update_history :: "env \<Rightarrow> room \<Rightarrow> room \<times> effect list" where
  "update_history env r =
     (if length (history (state r)) > 4 then
        (r\<lparr>state := (state r)
             \<lparr>gameMemory := gameMemory (state r) @
                [\<lparr>mem_level = level (state r),
                  summary = js_or (fetchMistral (summary_reply env)) summary_default,
                  timestamp = summary_time env\<rparr>],
              history := slice_last 2 (history (state r))\<rparr>\<rparr>,
         [LlmCall SummaryRequest])
      else (r, []))"

text \<open>The third block: more than three memory entries are compressed into one.\<close>

definition update_memory :: "env \<Rightarrow> room \<Rightarrow> room \<times> effect list" where
  "update_memory env r =
     (if length (gameMemory (state r)) > 3 then
        (r\<lparr>state := (state r)
             \<lparr>gameMemory :=
                [\<lparr>mem_level = level (state r),
                  summary = js_or (fetchMistral (compress_reply env)) compressed_default,
                  timestamp = compress_time env\<rparr>]\<rparr>\<rparr>,
         [LlmCall CompressRequest])
      else (r, []))"

definition updateGameMemory :: "config \<Rightarrow> env \<Rightarrow> room \<Rightarrow> room \<times> effect list" where
  "updateGameMemory cfg env r =
     (if FAST_DEBUG cfg then
        (if \<not> has_goal r
         then set_goal (goal_fast_prefix @ num_str (level (state r))) r
         else r, [])
      else
        (let (r1, e1) = update_goal env r;
             (r2, e2) = update_history env r1;
             (r3, e3) = update_memory env r2
         in (r3, e1 @ e2 @ e3)))"

subsection \<open>Narrative generation adapter\<close>

text \<open>
  \<^verbatim>\<open>getGmResponse\<close> of the memory-aware server. The fast-debug branch returns before the
  memory update; otherwise the memory is updated, one request is sent, and the text is the
  first 250 code units of the reply or the fallback sentence.
\<close>

definition getGmResponse :: "config \<Rightarrow> env \<Rightarrow> room \<Rightarrow> bool \<Rightarrow> jsstring \<times> room \<times> effect list" where
  "getGmResponse cfg env r isInitial =
     (if FAST_DEBUG cfg then ((if isInitial then canned_initial else canned_next), r, [])
      else
        (let (r1, e1) = updateGameMemory cfg env r
         in (case narration_reply env of
               None \<Rightarrow> gm_fallback
             | Some content \<Rightarrow> take 250 content,
             r1, e1 @ [LlmCall NarrationRequest])))"

text \<open>
  \<^verbatim>\<open>getGmResponse\<close> of \<^verbatim>\<open>src/app/index.js\<close>: the same without the memory update.
\<close>

definition getGmResponse_baseline :: "config \<Rightarrow> env \<Rightarrow> room \<Rightarrow> bool \<Rightarrow> jsstring \<times> effect list" where
  "getGmResponse_baseline cfg env r isInitial =
     (if FAST_DEBUG cfg then ((if isInitial then canned_initial else canned_next), [])
      else
        (case narration_reply env of
           None \<Rightarrow> gm_fallback
         | Some content \<Rightarrow> take 250 content,
         [LlmCall NarrationRequest]))"

subsection \<open>Server state\<close>

datatype exception = ReferenceError | TypeError

datatype outcome = Returned | Uncaught exception

text \<open>
  \<open>rooms\<close> is the registry, \<open>store\<close> holds the room objects, \<open>username\<close> and \<open>roomId\<close> are
  the fields the handlers set on a socket, \<open>connected\<close> is the transport's own table of live
  sockets (\<^verbatim>\<open>io.sockets.sockets\<close>), \<open>connectedUsers\<close> is a map that keeps insertion order.
  \<open>gm_timers\<close> are the pending two-second callbacks of \<^verbatim>\<open>nextTurn\<close>, each with the room id
  and the room object it captured; \<open>gm_waiting\<close> are the callbacks that have fired and wait
  for the adapters, each with the room id, the room object, the narration and the image
  address it will go on with; \<open>join_timers\<close> are the pending 120-second callbacks.
\<close>

record server =
  rooms :: "rid \<Rightarrow> addr option"
  store :: "addr \<Rightarrow> room"
  next_addr :: addr
  username :: "sid \<Rightarrow> jsstring option"
  roomId :: "sid \<Rightarrow> rid option"
  connected :: "sid \<Rightarrow> bool"
  connectedSockets :: "sid set"
  connectedUsers :: "(jsstring option \<times> sid) list"
  gm_timers :: "(rid \<times> addr) list"
  gm_waiting :: "(rid \<times> addr \<times> jsstring \<times> jsstring) list"
  join_timers :: "(rid \<times> addr) list"

text \<open>The room object that \<^verbatim>\<open>createRoom\<close> and \<^verbatim>\<open>joinRoom\<close> build.\<close>

definition new_room :: "sid list \<Rightarrow> room" where
  "new_room ps =
     \<lparr>players = ps,
      state = \<lparr>level = 1, turn = GM, history = [], levelGoals = (\<lambda>_. None),
               gameMemory = [], levelMemory = []\<rparr>,
      timeout = False\<rparr>"

definition init :: server where
  "init =
     \<lparr>rooms = (\<lambda>_. None), store = (\<lambda>_. new_room []), next_addr = 0,
      username = (\<lambda>_. None), roomId = (\<lambda>_. None), connected = (\<lambda>_. False),
      connectedSockets = {}, connectedUsers = [], gm_timers = [], gm_waiting = [],
      join_timers = []\<rparr>"

subsection \<open>Array and map helpers\<close>

fun find_from :: "int \<Rightarrow> sid \<Rightarrow> sid list \<Rightarrow> int" where
  "find_from k x [] = - 1"
| "find_from k x (y # ys) = (if y = x then k else find_from (k + 1) x ys)"

text \<open>\<^verbatim>\<open>players.findIndex(p => p.id === socket.id)\<close>\<close>

definition findIndex :: "sid \<Rightarrow> sid list \<Rightarrow> int" where
  "findIndex x ys = find_from 0 x ys"

text \<open>\<^verbatim>\<open>players.splice(index, 1)\<close> for an index that \<^verbatim>\<open>findIndex\<close> returned.\<close>

definition splice1 :: "int \<Rightarrow> 'a list \<Rightarrow> 'a list" where
  "splice1 i xs = take (nat i) xs @ drop (nat i + 1) xs"

text \<open>\<^verbatim>\<open>Map.prototype.set\<close>: an existing key keeps its place.\<close>

fun map_set :: "'k \<Rightarrow> 'v \<Rightarrow> ('k \<times> 'v) list \<Rightarrow> ('k \<times> 'v) list" where
  "map_set k v [] = [(k, v)]"
| "map_set k v ((k', v') # es) = (if k' = k then (k, v) # es else (k', v') # map_set k v es)"

text \<open>The loop of the disconnect handler: delete the first entry that holds the id.\<close>

fun delete_first_id :: "sid \<Rightarrow> ('k \<times> sid) list \<Rightarrow> ('k \<times> sid) list" where
  "delete_first_id x [] = []"
| "delete_first_id x ((k, i) # es) = (if i = x then es else (k, i) # delete_first_id x es)"

text \<open>\<^verbatim>\<open>players.map(p => p.username).filter(Boolean)\<close>\<close>

definition playerNames :: "server \<Rightarrow> sid list \<Rightarrow> jsstring list" where
  "playerNames s ps =
     concat (map (\<lambda>p. case username s p of None \<Rightarrow> [] | Some n \<Rightarrow> if n = [] then [] else [n]) ps)"

text \<open>\<^verbatim>\<open>username || `Player-${socket.id.substring(0, 4)}`\<close>\<close>

definition name_or_default :: "jsstring option \<Rightarrow> sid \<Rightarrow> jsstring" where
  "name_or_default u x =
     (case u of None \<Rightarrow> ascii ''Player-'' @ take 4 x
      | Some n \<Rightarrow> js_or n (ascii ''Player-'' @ take 4 x))"

definition goal_or :: "jsstring option \<Rightarrow> jsstring \<Rightarrow> jsstring" where
  "goal_or g d = (case g of None \<Rightarrow> d | Some x \<Rightarrow> js_or x d)"

definition push_history :: "jsstring \<Rightarrow> room \<Rightarrow> room" where
  "push_history line r = r\<lparr>state := (state r)\<lparr>history := history (state r) @ [line]\<rparr>\<rparr>"

definition set_turn :: "turn \<Rightarrow> room \<Rightarrow> room" where
  "set_turn t r = r\<lparr>state := (state r)\<lparr>turn := t\<rparr>\<rparr>"

definition getRequiredPlayersCount :: "config \<Rightarrow> nat" where
  "getRequiredPlayersCount cfg = (if DEBUG_MODE cfg then 1 else 3)"

subsection \<open>Turn-state machine\<close>

text \<open>
  \<^verbatim>\<open>startGame\<close>. Both adapters catch their own failures, so the \<^verbatim>\<open>catch\<close> branch of
  this function is never entered.
\<close>

definition startGame :: "config \<Rightarrow> env \<Rightarrow> server \<Rightarrow> rid \<Rightarrow> server \<times> effect list" where
  "startGame cfg env s r =
     (case rooms s r of
        None \<Rightarrow> (s, [])
      | Some a \<Rightarrow>
          (let room = store s a;
               (room0, s0) =
                 (if timeout room
                  then (room\<lparr>timeout := False\<rparr>,
                        s\<lparr>join_timers := filter (\<lambda>(r', a'). a' \<noteq> a) (join_timers s)\<rparr>)
                  else (room, s));
               (initialSituation, room1, e1) = getGmResponse cfg env room0 True;
               (imageUrl, e2) = generateImage cfg env initialSituation;
               room2 = set_turn (Num 1) (push_history (ascii ''GM: '' @ initialSituation) room1)
           in (s0\<lparr>store := (store s0)(a := room2)\<rparr>,
               e1 @ e2 @
               [ToRoom r (GameStart initialSituation imageUrl), ToRoom r (PlayerTurn 1)])))"

text \<open>
  \<^verbatim>\<open>nextTurn\<close>, up to the call of \<^verbatim>\<open>setTimeout\<close>: the callback is queued with the room
  id and the room object.
\<close>

definition nextTurn :: "config \<Rightarrow> server \<Rightarrow> rid \<Rightarrow> server \<times> effect list" where
  "nextTurn cfg s r =
     (case rooms s r of
        None \<Rightarrow> (s, [])
      | Some a \<Rightarrow>
          (let room = store s a in
           if DEBUG_MODE cfg then
             (s\<lparr>store := (store s)(a := set_turn GM room), gm_timers := gm_timers s @ [(r, a)]\<rparr>,
              [ToRoom r GmTurn])
           else
             (let currentTurn = (case turn (state room) of Num n \<Rightarrow> n | GM \<Rightarrow> 0) + 1 in
              if currentTurn > int (length (players room)) then
                (s\<lparr>store := (store s)(a := set_turn GM room),
                   gm_timers := gm_timers s @ [(r, a)]\<rparr>,
                 [ToRoom r GmTurn])
              else
                (s\<lparr>store := (store s)(a := set_turn (Num currentTurn) room)\<rparr>,
                 [ToRoom r (PlayerTurn currentTurn)]))))"

text \<open>
  The callback of the two-second timer, the game master's narration pass. It is written
  twice in \<^verbatim>\<open>nextTurn\<close>, for the debug and the standard mode, with the same body. Its
  first part waits for the narration and then for the image.
\<close>

definition gm_narrate :: "config \<Rightarrow> env \<Rightarrow> room \<Rightarrow> jsstring \<times> jsstring \<times> room \<times> effect list" where
  "gm_narrate cfg env room =
     (let (gmResponse, room1, e1) = getGmResponse cfg env room False;
          (imageUrl, e2) = generateImage cfg env gmResponse
      in (gmResponse, imageUrl, room1, e1 @ e2))"

text \<open>The branch taken when the narration holds the marker.\<close>

definition level_complete :: "rid \<Rightarrow> room \<Rightarrow> room \<times> effect list" where
  "level_complete r room =
     (let room' = room\<lparr>state := (state room)
                    \<lparr>level := level (state room) + 1, history := [], levelMemory := []\<rparr>\<rparr>
      in (room',
          [ToRoom r (LevelComplete (level (state room'))
             (goal_or (levelGoals (state room') (level (state room'))) new_goal_default))]))"

text \<open>
  The second part of the callback, from the scene update to its end, has no \<^verbatim>\<open>await\<close>:
  it reads and writes the room as it is when the adapters have answered.
\<close>

definition gm_conclude :: "rid \<Rightarrow> jsstring \<Rightarrow> jsstring \<Rightarrow> room \<Rightarrow> room \<times> effect list" where
  "gm_conclude r gmResponse imageUrl room =
     (let room2 = push_history (ascii ''GM: '' @ gmResponse) room;
          (room3, e3) =
            (if includes_js (toLowerCase gmResponse) level_marker
             then level_complete r room2 else (room2, []));
          (room4, e4) =
            (if level (state room3) > 5 then (room3, [ToRoom r GameEnd])
             else (set_turn (Num 1) room3, [ToRoom r (PlayerTurn 1)]))
      in (room4, [ToRoom r (GmUpdate gmResponse imageUrl)] @ e3 @ e4))"

subsection \<open>Handlers of the realtime gateway\<close>

definition connection :: "server \<Rightarrow> sid \<Rightarrow> server" where
  "connection s x =
     (if x \<in> connectedSockets s then s
      else s\<lparr>connectedSockets := insert x (connectedSockets s),
             connected := (connected s)(x := True)\<rparr>)"

text \<open>Storing a fresh room object under a room id, with the socket as its first player.\<close>

definition seat_first :: "server \<Rightarrow> sid \<Rightarrow> rid \<Rightarrow> jsstring option \<Rightarrow> server" where
  "seat_first s x r u =
     s\<lparr>roomId := (roomId s)(x := Some r),
       username := (username s)(x := Some (name_or_default u x)),
       rooms := (rooms s)(r := Some (next_addr s)),
       store := (store s)(next_addr s := new_room [x]),
       next_addr := next_addr s + 1\<rparr>"

text \<open>\<^verbatim>\<open>rooms[roomId].timeout = setTimeout(..., 120000)\<close>\<close>

definition arm_timeout :: "rid \<Rightarrow> server \<Rightarrow> server" where
  "arm_timeout r s =
     (case rooms s r of
        None \<Rightarrow> s
      | Some a \<Rightarrow> s\<lparr>store := (store s)(a := (store s a)\<lparr>timeout := True\<rparr>),
                    join_timers := join_timers s @ [(r, a)]\<rparr>)"

definition createRoom ::
  "config \<Rightarrow> env \<Rightarrow> server \<Rightarrow> sid \<Rightarrow> rid \<Rightarrow> jsstring option \<Rightarrow> server \<times> effect list" where
  "createRoom cfg env s x r u =
     (if truthy (roomId s x) then (s, [ToSocket x (ErrorEvent AlreadyInRoom)])
      else
        (let s1 = seat_first s x r u in
         if \<not> DEBUG_MODE cfg then (arm_timeout r s1, [ToSocket x (RoomCreated r)])
         else
           (let (s2, e) = startGame cfg env s1 r
            in (s2, [ToSocket x (RoomCreated r),
                     ToRoom r (PlayersUpdate [name_or_default u x])] @ e))))"

text \<open>
  The disconnect handler. When players remain, the last generation of the server reads the
  variable \<^verbatim>\<open>roomId\<close>, which is not declared in the handler's scope: the read throws
  after the player was removed and the leave notice sent.
\<close>

definition disconnect :: "server \<Rightarrow> sid \<Rightarrow> outcome \<times> server \<times> effect list" where
  "disconnect s x =
     (let s1 = s\<lparr>connectedUsers := delete_first_id x (connectedUsers s)\<rparr>;
          done = (\<lambda>t. t\<lparr>connectedSockets := connectedSockets t - {x}\<rparr>)
      in if \<not> truthy (roomId s1 x) then (Returned, done s1, [])
         else
           (let r = str_of (roomId s1 x) in
            case rooms s1 r of
              None \<Rightarrow> (Returned, done s1, [])
            | Some a \<Rightarrow>
                (let room = store s1 a;
                     index = findIndex x (players room)
                 in if index \<noteq> - 1 then
                      (let name = username s1 (players room ! nat index);
                           room' = room\<lparr>players := splice1 index (players room)\<rparr>;
                           s2 = s1\<lparr>store := (store s1)(a := room')\<rparr>;
                           e1 = (if truthy name then [ToRoom r (PlayerLeft (str_of name))] else [])
                       in if length (players room') > 0 then (Uncaught ReferenceError, s2, e1)
                          else (Returned, done (s2\<lparr>rooms := (rooms s2)(r := None)\<rparr>), e1))
                    else (Returned, done s1, []))))"

text \<open>
  \<^verbatim>\<open>socket.disconnect()\<close> of the transport, and a connection that closes: the socket
  leaves the table of live sockets and its disconnect handler runs at once.
\<close>

definition socket_disconnect :: "server \<Rightarrow> sid \<Rightarrow> outcome \<times> server \<times> effect list" where
  "socket_disconnect s x =
     (if connected s x then disconnect (s\<lparr>connected := (connected s)(x := False)\<rparr>) x
      else (Returned, s, []))"

text \<open>
  The end of the join handler, shared by its two branches: the list of names is sent and
  the game starts when enough players are seated.
\<close>

definition join_finish ::
  "config \<Rightarrow> env \<Rightarrow> server \<Rightarrow> rid \<Rightarrow> outcome \<times> server \<times> effect list" where
  "join_finish cfg env s r =
     (case rooms s r of
        None \<Rightarrow> (Uncaught TypeError, s, [])
      | Some a \<Rightarrow>
          (let e0 = [ToRoom r (PlayersUpdate (playerNames s (players (store s a))))] in
           if length (players (store s a)) \<ge> getRequiredPlayersCount cfg then
             (let (s1, e1) = startGame cfg env s r in (Returned, s1, e0 @ e1))
           else (Returned, s, e0)))"

text \<open>
  The eviction of an older connection registered under the same name. Its disconnect
  handler runs inside the join handler.
\<close>

definition evict_old ::
  "server \<Rightarrow> sid \<Rightarrow> jsstring option \<Rightarrow> outcome \<times> server \<times> effect list" where
  "evict_old s x u =
     (case map_of (connectedUsers s) u of
        None \<Rightarrow> (Returned, s, [])
      | Some oldSocketId \<Rightarrow>
          if oldSocketId \<noteq> x then socket_disconnect s oldSocketId else (Returned, s, []))"

text \<open>
  The socket is entered under its name: \<^verbatim>\<open>connectedUsers.set(username, socket.id)\<close>, then
  \<^verbatim>\<open>socket.username = username\<close> and \<^verbatim>\<open>socket.roomId = roomId\<close>.
\<close>

definition register_user :: "server \<Rightarrow> sid \<Rightarrow> rid \<Rightarrow> jsstring option \<Rightarrow> server" where
  "register_user s x r u =
     s\<lparr>connectedUsers := map_set u x (connectedUsers s),
       username := (username s)(x := u),
       roomId := (roomId s)(x := Some r)\<rparr>"

text \<open>The socket is pushed onto the players of a room object unless it is there already.\<close>

definition seat :: "server \<Rightarrow> sid \<Rightarrow> addr \<Rightarrow> server" where
  "seat s x a =
     (if x \<notin> set (players (store s a))
      then s\<lparr>store := (store s)(a := (store s a)\<lparr>players := players (store s a) @ [x]\<rparr>)\<rparr>
      else s)"

text \<open>
  The join handler. An unknown room id creates the room. Otherwise the room is looked up
  again after the eviction, which may have deleted it: the read of its players then throws.
\<close>

definition joinRoom ::
  "config \<Rightarrow> env \<Rightarrow> server \<Rightarrow> sid \<Rightarrow> rid \<Rightarrow> jsstring option \<Rightarrow> outcome \<times> server \<times> effect list"
  where
  "joinRoom cfg env s x r u =
     (case rooms s r of
        None \<Rightarrow>
          (let s1 = seat_first s x r u;
               s2 = (if \<not> DEBUG_MODE cfg then arm_timeout r s1 else s1)
           in join_finish cfg env s2 r)
      | Some a \<Rightarrow>
          if length (players (store s a)) \<ge> getRequiredPlayersCount cfg
             \<and> x \<notin> set (players (store s a))
          then (Returned, s, [ToSocket x (ErrorEvent RoomFull)])
          else
            (case evict_old s x u of
               (Uncaught err, s1, e1) \<Rightarrow> (Uncaught err, s1, e1)
             | (Returned, s1, e1) \<Rightarrow>
                 (let s2 = register_user s1 x r u
                  in case rooms s2 r of
                       None \<Rightarrow> (Uncaught TypeError, s2, e1)
                     | Some a' \<Rightarrow>
                         (case join_finish cfg env (seat s2 x a') r of
                            (out, s4, e4) \<Rightarrow> (out, s4, e1 @ e4)))))"

text \<open>
  The action handler of the last generation. A chat line is logged when the type is
  \<^verbatim>\<open>say\<close>, and every accepted action then takes the same path. The adapters catch their
  own failures, so the \<^verbatim>\<open>catch\<close> branch is never entered.
\<close>

definition action ::
  "config \<Rightarrow> env \<Rightarrow> server \<Rightarrow> sid \<Rightarrow> rid \<Rightarrow> jsstring \<Rightarrow> jsstring \<Rightarrow> server \<times> effect list"
  where
  "action cfg env s x r type text =
     (case rooms s r of
        None \<Rightarrow> (s, [ToSocket x (ErrorEvent RoomNotFound)])
      | Some a \<Rightarrow>
          (let room = store s a;
               playerIndex = findIndex x (players room);
               isValidTurn = (DEBUG_MODE cfg \<or> turn (state room) = Num (playerIndex + 1))
           in if \<not> isValidTurn then (s, [ToSocket x (ErrorEvent NotYourTurn)])
              else
                (let room1 = push_history
                       (str_of (username s x) @ ascii '' '' @ type @ ascii '': '' @ text) room;
                     (gmResponse, room2, e1) = getGmResponse cfg env room1 False;
                     (imageUrl, e2) = generateImage cfg env gmResponse;
                     room3 = push_history (ascii ''GM: '' @ gmResponse) room2;
                     (s', e3) = nextTurn cfg (s\<lparr>store := (store s)(a := room3)\<rparr>) r
                 in (s', [ToRoom r (SayMessage (username s x) text)] @ e1 @ e2 @
                         [ToRoom r (GmUpdate gmResponse imageUrl)] @ e3))))"

text \<open>
  The action handler of \<^verbatim>\<open>src/app/index.js\<close>: a \<^verbatim>\<open>say\<close> action is broadcast and nothing
  else; the other actions go to the game master.
\<close>

definition action_baseline ::
  "config \<Rightarrow> env \<Rightarrow> server \<Rightarrow> sid \<Rightarrow> rid \<Rightarrow> jsstring \<Rightarrow> jsstring \<Rightarrow> server \<times> effect list"
  where
  "action_baseline cfg env s x r type text =
     (case rooms s r of
        None \<Rightarrow> (s, [ToSocket x (ErrorEvent RoomNotFound)])
      | Some a \<Rightarrow>
          (let room = store s a;
               playerIndex = findIndex x (players room);
               isValidTurn = (DEBUG_MODE cfg \<or> turn (state room) = Num (playerIndex + 1))
           in if \<not> isValidTurn then (s, [ToSocket x (ErrorEvent NotYourTurn)])
              else if type = ascii ''say'' then (s, [ToRoom r (SayMessage (username s x) text)])
              else
                (let room1 = push_history
                       (str_of (username s x) @ ascii '' '' @ type @ ascii '': '' @ text) room;
                     (gmResponse, e1) = getGmResponse_baseline cfg env room1 False;
                     (imageUrl, e2) = generateImage cfg env gmResponse;
                     room3 = push_history (ascii ''GM: '' @ gmResponse) room1;
                     (s', e3) = nextTurn cfg (s\<lparr>store := (store s)(a := room3)\<rparr>) r
                 in (s', e1 @ e2 @ [ToRoom r (GmUpdate gmResponse imageUrl)] @ e3))))"

text \<open>The callback of the 120-second timer set when a room is created.\<close>

definition join_timeout :: "config \<Rightarrow> server \<Rightarrow> rid \<Rightarrow> server \<times> effect list" where
  "join_timeout cfg s r =
     (case rooms s r of
        None \<Rightarrow> (s, [])
      | Some a \<Rightarrow>
          if length (players (store s a)) < getRequiredPlayersCount cfg
          then (s\<lparr>rooms := (rooms s)(r := None)\<rparr>, [ToRoom r (ErrorEvent NotEnoughPlayers)])
          else (s, []))"

subsection \<open>The server as a transition system\<close>

text \<open>
  One input is one event of the event loop: a new connection, a message of a live socket,
  a closed connection, a timer that fires, or the adapters' answer to a narration pass that
  waits (timers and waiting passes are named by their place in the queue).
\<close>

datatype input =
  Connection sid
  | CreateRoom sid rid "jsstring option"
  | JoinRoom sid rid "jsstring option"
  | Action sid rid jsstring jsstring
  | Disconnect sid
  | GmTimer nat
  | GmResume nat
  | JoinTimer nat

definition fire_gm_timer :: "config \<Rightarrow> env \<Rightarrow> server \<Rightarrow> nat \<Rightarrow> server \<times> effect list" where
  "fire_gm_timer cfg env s k =
     (if k < length (gm_timers s) then
        (let (r, a) = gm_timers s ! k;
             s1 = s\<lparr>gm_timers := take k (gm_timers s) @ drop (k + 1) (gm_timers s)\<rparr>;
             (gmResponse, imageUrl, room1, e) = gm_narrate cfg env (store s1 a)
         in (s1\<lparr>store := (store s1)(a := room1),
                gm_waiting := gm_waiting s1 @ [(r, a, gmResponse, imageUrl)]\<rparr>, e))
      else (s, []))"

definition resume_gm_pass :: "server \<Rightarrow> nat \<Rightarrow> server \<times> effect list" where
  "resume_gm_pass s k =
     (if k < length (gm_waiting s) then
        (let (r, a, gmResponse, imageUrl) = gm_waiting s ! k;
             s1 = s\<lparr>gm_waiting := take k (gm_waiting s) @ drop (k + 1) (gm_waiting s)\<rparr>;
             (room', e) = gm_conclude r gmResponse imageUrl (store s1 a)
         in (s1\<lparr>store := (store s1)(a := room')\<rparr>, e))
      else (s, []))"

definition fire_join_timer :: "config \<Rightarrow> server \<Rightarrow> nat \<Rightarrow> server \<times> effect list" where
  "fire_join_timer cfg s k =
     (if k < length (join_timers s) then
        join_timeout cfg
          (s\<lparr>join_timers := take k (join_timers s) @ drop (k + 1) (join_timers s)\<rparr>)
          (fst (join_timers s ! k))
      else (s, []))"

definition step :: "config \<Rightarrow> env \<Rightarrow> server \<Rightarrow> input \<Rightarrow> outcome \<times> server \<times> effect list" where
  "step cfg env s i =
     (case i of
        Connection x \<Rightarrow> (Returned, connection s x, [])
      | CreateRoom x r u \<Rightarrow>
          if connected s x
          then (case createRoom cfg env s x r u of (s', e) \<Rightarrow> (Returned, s', e))
          else (Returned, s, [])
      | JoinRoom x r u \<Rightarrow>
          if connected s x then joinRoom cfg env s x r u else (Returned, s, [])
      | Action x r type text \<Rightarrow>
          if connected s x
          then (case action cfg env s x r type text of (s', e) \<Rightarrow> (Returned, s', e))
          else (Returned, s, [])
      | Disconnect x \<Rightarrow> socket_disconnect s x
      | GmTimer k \<Rightarrow> (case fire_gm_timer cfg env s k of (s', e) \<Rightarrow> (Returned, s', e))
      | GmResume k \<Rightarrow> (case resume_gm_pass s k of (s', e) \<Rightarrow> (Returned, s', e))
      | JoinTimer k \<Rightarrow> (case fire_join_timer cfg s k of (s', e) \<Rightarrow> (Returned, s', e)))"

text \<open>A run stops at the first uncaught exception, as the process does.\<close>

fun run :: "config \<Rightarrow> server \<Rightarrow> (input \<times> env) list \<Rightarrow> outcome \<times> server \<times> effect list" where
  "run cfg s [] = (Returned, s, [])"
| "run cfg s ((i, env) # rest) =
     (case step cfg env s i of
        (Uncaught err, s', e) \<Rightarrow> (Uncaught err, s', e)
      | (Returned, s', e) \<Rightarrow>
          (case run cfg s' rest of (out, s'', e') \<Rightarrow> (out, s'', e @ e')))"

text \<open>The states the server can be in: those a run from the empty server leads to.\<close>

inductive reachable :: "config \<Rightarrow> server \<Rightarrow> bool" for cfg :: config where
  reachable_init: "reachable cfg init"
| reachable_step: "reachable cfg s \<Longrightarrow> step cfg env s i = (Returned, s', e) \<Longrightarrow> reachable cfg s'"

subsection \<open>Invariants\<close>

text \<open>
  No socket sits twice in a room object and no room object holds more players than the
  game needs.
\<close>

definition seats_ok :: "config \<Rightarrow> server \<Rightarrow> bool" where
  "seats_ok cfg s =
     (\<forall>a. distinct (players (store s a))
          \<and> length (players (store s a)) \<le> getRequiredPlayersCount cfg)"

text \<open>
  Every id of the registry names an allocated room object with a player, and no room
  object is registered under two ids.
\<close>

definition registry_ok :: "server \<Rightarrow> bool" where
  "registry_ok s =
     (\<forall>r a. rooms s r = Some a \<longrightarrow>
        a < next_addr s \<and> players (store s a) \<noteq> [] \<and> (\<forall>r'. rooms s r' = Some a \<longrightarrow> r' = r))"

text \<open>No room object holds a memory entry.\<close>

definition no_memory :: "server \<Rightarrow> bool" where
  "no_memory s = (\<forall>a. gameMemory (state (store s a)) = [])"

subsection \<open>Scenarios\<close>

text \<open>
  Sockets, room ids, configurations and environments for the concrete runs below. In
  \<open>silent\<close> every outbound request fails; in \<open>completing\<close> the language model answers the
  narration request with a text that holds the marker in capitals.
\<close>

definition alice :: sid where
  "alice = ascii ''sock-alice''"

definition lobby :: rid where
  "lobby = ascii ''1''"

definition cellar :: rid where
  "cellar = ascii ''2''"

definition standard :: config where
  "standard =
     \<lparr>DEBUG_MODE = False, FAST_DEBUG = False, DOMAIN = Some (ascii ''https://game.example'')\<rparr>"

definition debugging :: config where
  "debugging =
     \<lparr>DEBUG_MODE = True, FAST_DEBUG = False, DOMAIN = Some (ascii ''https://game.example'')\<rparr>"

definition fast :: config where
  "fast =
     \<lparr>DEBUG_MODE = True, FAST_DEBUG = True, DOMAIN = Some (ascii ''https://game.example'')\<rparr>"

definition silent :: env where
  "silent =
     \<lparr>goal_reply = None, summary_reply = None, compress_reply = None, narration_reply = None,
      image_reply = None, summary_time = 0, compress_time = 0\<rparr>"

definition completing :: env where
  "completing = silent\<lparr>narration_reply := Some (ascii ''Level Complete!'')\<rparr>"

text \<open>A reply to the compression request, with blanks around it, at a given clock reading.\<close>

definition summarising :: env where
  "summarising =
     silent\<lparr>compress_reply := Some (ascii '' They went down. ''),
            compress_time := 1700000000000\<rparr>"

definition bob :: sid where
  "bob = ascii ''sock-bob''"

definition carol :: sid where
  "carol = ascii ''sock-carol''"

definition dave :: sid where
  "dave = ascii ''sock-dave''"

text \<open>
  A room as the action handler passes it to the narration adapter: three memory entries
  and a fifth history line just pushed.
\<close>

definition crowded :: room where
  "crowded =
     (new_room [alice])\<lparr>state := (state (new_room [alice]))
        \<lparr>history := [ascii ''GM: a'', ascii ''alice use: b'', ascii ''GM: c'', ascii ''GM: d'',
                     ascii ''alice use: e''],
         gameMemory := [\<lparr>mem_level = 1, summary = ascii ''one'', timestamp = 1\<rparr>,
                        \<lparr>mem_level = 1, summary = ascii ''two'', timestamp = 2\<rparr>,
                        \<lparr>mem_level = 1, summary = ascii ''three'', timestamp = 3\<rparr>]\<rparr>\<rparr>"

text \<open>A room on the last level.\<close>

definition final_room :: room where
  "final_room = (new_room [alice])\<lparr>state := (state (new_room [alice]))\<lparr>level := 5\<rparr>\<rparr>"

text \<open>Standard mode: one player has opened the room and waits for two more.\<close>

definition waiting :: server where
  "waiting = fst (snd (run standard init
      [(Connection alice, silent), (JoinRoom alice lobby (Some (ascii ''alice'')), silent)]))"

text \<open>Standard mode: three players have joined, the game has started, it is the first player's turn.\<close>

definition playing :: server where
  "playing = fst (snd (run standard init
      [(Connection alice, silent), (Connection bob, silent), (Connection carol, silent),
       (JoinRoom alice lobby (Some (ascii ''alice'')), silent),
       (JoinRoom bob lobby (Some (ascii ''bob'')), silent),
       (JoinRoom carol lobby (Some (ascii ''carol'')), silent)]))"

text \<open>Standard mode: one socket has joined a first room and then a second one.\<close>

definition wandering :: server where
  "wandering = fst (snd (run standard init
      [(Connection alice, silent),
       (JoinRoom alice lobby (Some (ascii ''alice'')), silent),
       (JoinRoom alice cellar (Some (ascii ''alice'')), silent)]))"

text \<open>Debug mode: the single player has created the room and acted once; a narration pass is pending.\<close>

definition started :: server where
  "started = fst (snd (run debugging init
     [(Connection alice, silent), (CreateRoom alice lobby (Some (ascii ''alice'')), silent),
      (Action alice lobby (ascii ''use'') (ascii ''key''), silent)]))"

text \<open>
  Debug mode: a whole game. The player acts five times, and each narration pass that
  follows (the timer fires, the adapters answer) completes a level.
\<close>

definition one_round :: "(input \<times> env) list" where
  "one_round =
     [(Action alice lobby (ascii ''use'') (ascii ''key''), silent), (GmTimer 0, completing),
      (GmResume 0, silent)]"

definition four_levels :: "(input \<times> env) list" where
  "four_levels =
     [(Connection alice, silent), (CreateRoom alice lobby (Some (ascii ''alice'')), silent)]
     @ one_round @ one_round @ one_round @ one_round"

definition to_the_end :: "(input \<times> env) list" where
  "to_the_end = four_levels @ one_round"

definition ended :: server where
  "ended = fst (snd (run debugging init to_the_end))"

text \<open>
  Debug mode, level 5: the player acts twice, so two passes are pending on the room. The
  first gets no answer from the language model, the second gets a narration with the
  marker and finishes first.
\<close>

definition overtaking :: "(input \<times> env) list" where
  "overtaking =
     four_levels @
     [(Action alice lobby (ascii ''use'') (ascii ''key''), silent),
      (Action alice lobby (ascii ''use'') (ascii ''rope''), silent),
      (GmTimer 0, silent), (GmTimer 0, completing), (GmResume 1, silent)]"

definition overtaken :: server where
  "overtaken = fst (snd (run debugging init overtaking))"

text \<open>The pending pass of \<open>started\<close> has fired, with and without an answer of the model.\<close>

definition answered :: server where
  "answered = fst (snd (step debugging completing started (GmTimer 0)))"

definition unanswered :: server where
  "unanswered = fst (snd (step debugging silent started (GmTimer 0)))"

text \<open>The player acts once more after the end of the game.\<close>

definition resumed :: server where
  "resumed =
     fst (snd (step debugging silent ended (Action alice lobby (ascii ''use'') (ascii ''door''))))"

section \<open>Properties\<close>

subsection \<open>The narration adapter\<close>

lemma length_canned_initial: "length canned_initial = 166"
  by (simp add: canned_initial_def)

lemma length_canned_next: "length canned_next = 145"
  by (simp add: canned_next_def)

lemma length_gm_fallback: "length gm_fallback = 49"
  by (simp add: gm_fallback_def)

text \<open>
  Claim C5. Whatever path \<^verbatim>\<open>getGmResponse\<close> takes (the canned text of the fast-debug
  mode, the reply of the language model, or the fallback sentence after a failed request),
  the text it returns has at most 250 code units, however long the reply of the model is.
\<close>

theorem getGmResponse_length:
  "length (fst (getGmResponse cfg env r isInitial)) \<le> 250"
  by (simp add: getGmResponse_def length_canned_initial length_canned_next
      length_gm_fallback case_prod_beta split: option.splits)

text \<open>The same bound holds for the adapter of \<^verbatim>\<open>src/app/index.js\<close>.\<close>

lemma getGmResponse_baseline_length:
  "length (fst (getGmResponse_baseline cfg env r isInitial)) \<le> 250"
  by (simp add: getGmResponse_baseline_def length_canned_initial length_canned_next
      length_gm_fallback split: option.splits)

subsection \<open>What the adapters and the turn machine leave alone\<close>

lemma updateGameMemory_frame:
  "players (fst (updateGameMemory cfg env r)) = players r"
  "timeout (fst (updateGameMemory cfg env r)) = timeout r"
  "level (state (fst (updateGameMemory cfg env r))) = level (state r)"
  "turn (state (fst (updateGameMemory cfg env r))) = turn (state r)"
  by (simp_all add: updateGameMemory_def update_goal_def update_history_def update_memory_def
      set_goal_def Let_def case_prod_beta)

lemma getGmResponse_frame:
  "players (fst (snd (getGmResponse cfg env r b))) = players r"
  "timeout (fst (snd (getGmResponse cfg env r b))) = timeout r"
  "level (state (fst (snd (getGmResponse cfg env r b)))) = level (state r)"
  "turn (state (fst (snd (getGmResponse cfg env r b)))) = turn (state r)"
  by (simp_all add: getGmResponse_def case_prod_beta updateGameMemory_frame)

lemma gm_narrate_frame:
  "players (fst (snd (snd (gm_narrate cfg env room)))) = players room"
  "timeout (fst (snd (snd (gm_narrate cfg env room)))) = timeout room"
  "level (state (fst (snd (snd (gm_narrate cfg env room))))) = level (state room)"
  "turn (state (fst (snd (snd (gm_narrate cfg env room))))) = turn (state room)"
  by (simp_all add: gm_narrate_def case_prod_beta getGmResponse_frame)

lemma gm_narrate_text:
  "fst (gm_narrate cfg env room) = fst (getGmResponse cfg env room False)"
  by (simp add: gm_narrate_def case_prod_beta)

lemma gm_conclude_players: "players (fst (gm_conclude r t u room)) = players room"
  by (simp add: gm_conclude_def level_complete_def push_history_def set_turn_def Let_def
      case_prod_beta)

lemma gm_conclude_level:
  "level (state (fst (gm_conclude r t u room))) =
     level (state room) + (if includes_js (toLowerCase t) level_marker then 1 else 0)"
  by (simp add: gm_conclude_def level_complete_def push_history_def set_turn_def Let_def
      case_prod_beta)

lemma startGame_frame:
  "rooms (fst (startGame cfg env s r)) = rooms s"
  "next_addr (fst (startGame cfg env s r)) = next_addr s"
  "players (store (fst (startGame cfg env s r)) a) = players (store s a)"
  "level (state (store (fst (startGame cfg env s r)) a)) = level (state (store s a))"
  "username (fst (startGame cfg env s r)) = username s"
  "roomId (fst (startGame cfg env s r)) = roomId s"
  "connected (fst (startGame cfg env s r)) = connected s"
  by (simp_all add: startGame_def push_history_def set_turn_def Let_def case_prod_beta getGmResponse_frame split: option.splits)

lemma nextTurn_frame:
  "rooms (fst (nextTurn cfg s r)) = rooms s"
  "next_addr (fst (nextTurn cfg s r)) = next_addr s"
  "players (store (fst (nextTurn cfg s r)) a) = players (store s a)"
  "level (state (store (fst (nextTurn cfg s r)) a)) = level (state (store s a))"
  "username (fst (nextTurn cfg s r)) = username s"
  "roomId (fst (nextTurn cfg s r)) = roomId s"
  "connected (fst (nextTurn cfg s r)) = connected s"
  by (simp_all add: nextTurn_def set_turn_def Let_def split: option.splits)

lemma action_frame:
  "rooms (fst (action cfg env s x r ty tx)) = rooms s"
  "next_addr (fst (action cfg env s x r ty tx)) = next_addr s"
  "players (store (fst (action cfg env s x r ty tx)) a) = players (store s a)"
  "level (state (store (fst (action cfg env s x r ty tx)) a)) = level (state (store s a))"
  by (simp_all add: action_def Let_def case_prod_beta nextTurn_frame getGmResponse_frame push_history_def split: option.splits)

subsection \<open>Finding and removing a player\<close>

lemma find_from_absent: "find_from k x ys = - 1 \<longleftrightarrow> x \<notin> set ys" if "0 \<le> k"
  using that by (induction ys arbitrary: k) auto

lemma find_from_range: "x \<in> set ys \<Longrightarrow> k \<le> find_from k x ys \<and> find_from k x ys < k + int (length ys)"
proof (induction ys arbitrary: k)
  case Nil
  then show ?case by simp
next
  case (Cons y ys)
  show ?case
  proof (cases "y = x")
    case True
    then show ?thesis by simp
  next
    case False
    with Cons.prems have "x \<in> set ys" by simp
    from Cons.IH [OF this, of "k + 1"] False show ?thesis by simp
  qed
qed

lemma find_from_splice:
  "x \<in> set ys \<Longrightarrow> take (nat (find_from k x ys - k)) ys @ drop (nat (find_from k x ys - k) + 1) ys = remove1 x ys"
proof (induction ys arbitrary: k)
  case Nil
  then show ?case by simp
next
  case (Cons y ys)
  show ?case
  proof (cases "y = x")
    case True
    then show ?thesis by simp
  next
    case False
    with Cons.prems have mem: "x \<in> set ys" by simp
    from find_from_range [OF mem, of "k + 1"] have "k + 1 \<le> find_from (k + 1) x ys" by simp
    then have eq: "nat (find_from (k + 1) x ys - k) = Suc (nat (find_from (k + 1) x ys - (k + 1)))"
      by linarith
    show ?thesis using False Cons.IH [OF mem, of "k + 1"] by (simp add: eq)
  qed
qed

lemma find_from_nth:
  "x \<in> set ys \<Longrightarrow> ys ! nat (find_from k x ys - k) = x"
proof (induction ys arbitrary: k)
  case Nil
  then show ?case by simp
next
  case (Cons y ys)
  show ?case
  proof (cases "y = x")
    case True
    then show ?thesis by simp
  next
    case False
    with Cons.prems have mem: "x \<in> set ys" by simp
    from find_from_range [OF mem, of "k + 1"] have "k + 1 \<le> find_from (k + 1) x ys" by simp
    then have eq: "nat (find_from (k + 1) x ys - k) = Suc (nat (find_from (k + 1) x ys - (k + 1)))"
      by linarith
    show ?thesis using False Cons.IH [OF mem, of "k + 1"] by (simp add: eq)
  qed
qed

lemma findIndex_absent: "findIndex x ys = - 1 \<longleftrightarrow> x \<notin> set ys"
  by (simp add: findIndex_def find_from_absent)

lemma findIndex_splice: "x \<in> set ys \<Longrightarrow> splice1 (findIndex x ys) ys = remove1 x ys"
  using find_from_splice [of x ys 0] by (simp add: findIndex_def splice1_def)

lemma findIndex_nth: "x \<in> set ys \<Longrightarrow> ys ! nat (findIndex x ys) = x"
  using find_from_nth [of x ys 0] by (simp add: findIndex_def)

lemma findIndex_range: "x \<in> set ys \<Longrightarrow> 0 \<le> findIndex x ys \<and> findIndex x ys < int (length ys)"
  using find_from_range [of x ys 0] by (simp add: findIndex_def)

text \<open>What the disconnect handler does to the registry and the seats.\<close>

lemma disconnect_next_addr: "next_addr (fst (snd (disconnect s x))) = next_addr s"
  by (simp add: disconnect_def Let_def split: option.splits)

lemma disconnect_players:
  "players (store (fst (snd (disconnect s x))) a) = players (store s a)
   \<or> players (store (fst (snd (disconnect s x))) a) = remove1 x (players (store s a))"
  by (auto simp: disconnect_def Let_def findIndex_absent findIndex_splice split: option.splits)

lemma disconnect_rooms:
  "rooms (fst (snd (disconnect s x))) r = Some a \<Longrightarrow> rooms s r = Some a"
  by (auto simp: disconnect_def Let_def split: option.splits if_splits)

lemma disconnect_level:
  "level (state (store (fst (snd (disconnect s x))) a)) = level (state (store s a))"
  by (auto simp: disconnect_def Let_def split: option.splits if_splits)

lemma disconnect_effect:
  "(store (fst (snd (disconnect s x))) = store s \<and> rooms (fst (snd (disconnect s x))) = rooms s)
   \<or> (\<exists>r a. rooms s r = Some a
          \<and> store (fst (snd (disconnect s x))) =
              (store s)(a := (store s a)\<lparr>players := remove1 x (players (store s a))\<rparr>)
          \<and> rooms (fst (snd (disconnect s x))) =
              (if remove1 x (players (store s a)) = [] then (rooms s)(r := None) else rooms s))"
  by (auto simp: disconnect_def Let_def findIndex_absent findIndex_splice split: option.splits)

lemma disconnect_registry_ok:
  assumes "registry_ok s"
  shows "registry_ok (fst (snd (disconnect s x)))"
proof -
  let ?s' = "fst (snd (disconnect s x))"
  from disconnect_effect [of s x] show ?thesis
  proof (elim disjE exE conjE)
    assume "store ?s' = store s" "rooms ?s' = rooms s"
    with assms show ?thesis by (simp add: registry_ok_def disconnect_next_addr)
  next
    fix r a
    assume reg: "rooms s r = Some a"
      and st: "store ?s' = (store s)(a := (store s a)\<lparr>players := remove1 x (players (store s a))\<rparr>)"
      and rm: "rooms ?s' = (if remove1 x (players (store s a)) = [] then (rooms s)(r := None) else rooms s)"
    from assms reg have inj: "\<And>r'. rooms s r' = Some a \<Longrightarrow> r' = r"
      by (auto simp: registry_ok_def)
    show ?thesis
      unfolding registry_ok_def
    proof (intro allI impI)
      fix r1 a1
      assume new: "rooms ?s' r1 = Some a1"
      then have old: "rooms s r1 = Some a1" by (rule disconnect_rooms)
      from assms old have a1: "a1 < next_addr s" "players (store s a1) \<noteq> []"
        and inj1: "\<And>r'. rooms s r' = Some a1 \<Longrightarrow> r' = r1"
        by (auto simp: registry_ok_def)
      have ne: "players (store ?s' a1) \<noteq> []"
      proof (cases "a1 = a")
        case True
        with old inj have "r1 = r" by simp
        with new rm have "remove1 x (players (store s a)) \<noteq> []" by (auto split: if_splits)
        with True st show ?thesis by simp
      next
        case False
        with st a1 show ?thesis by simp
      qed
      have "\<forall>r'. rooms ?s' r' = Some a1 \<longrightarrow> r' = r1"
        using inj1 disconnect_rooms by blast
      with ne a1 show "a1 < next_addr ?s' \<and> players (store ?s' a1) \<noteq> []
          \<and> (\<forall>r'. rooms ?s' r' = Some a1 \<longrightarrow> r' = r1)"
        by (simp add: disconnect_next_addr)
    qed
  qed
qed

subsection \<open>The invariants, handler by handler\<close>

lemma frame_seats_ok:
  "(\<And>a. players (store s' a) = players (store s a)) \<Longrightarrow> seats_ok cfg s \<Longrightarrow> seats_ok cfg s'"
  by (simp add: seats_ok_def)

lemma frame_registry_ok:
  "rooms s' = rooms s \<Longrightarrow> next_addr s' = next_addr s \<Longrightarrow>
   (\<And>a. players (store s' a) = players (store s a)) \<Longrightarrow> registry_ok s \<Longrightarrow> registry_ok s'"
  by (simp add: registry_ok_def)

lemma disconnect_seats_ok: "seats_ok cfg s \<Longrightarrow> seats_ok cfg (fst (snd (disconnect s x)))"
  unfolding seats_ok_def
proof (intro allI)
  fix a
  assume ok: "\<forall>a. distinct (players (store s a)) \<and> length (players (store s a)) \<le> getRequiredPlayersCount cfg"
  have "length (remove1 x (players (store s a))) \<le> length (players (store s a))"
    by (simp add: length_remove1)
  with ok disconnect_players [of s x a]
  show "distinct (players (store (fst (snd (disconnect s x))) a))
     \<and> length (players (store (fst (snd (disconnect s x))) a)) \<le> getRequiredPlayersCount cfg"
    by (metis distinct_remove1 le_trans)
qed

text \<open>The same facts for the transport's disconnect.\<close>

lemma socket_disconnect_next_addr: "next_addr (fst (snd (socket_disconnect s x))) = next_addr s"
  by (simp add: socket_disconnect_def disconnect_next_addr)

lemma socket_disconnect_players:
  "players (store (fst (snd (socket_disconnect s x))) a) = players (store s a)
   \<or> players (store (fst (snd (socket_disconnect s x))) a) = remove1 x (players (store s a))"
  using disconnect_players [of "s\<lparr>connected := (connected s)(x := False)\<rparr>" x a]
  by (simp add: socket_disconnect_def)

lemma socket_disconnect_rooms:
  "rooms (fst (snd (socket_disconnect s x))) r = Some a \<Longrightarrow> rooms s r = Some a"
  using disconnect_rooms [of "s\<lparr>connected := (connected s)(x := False)\<rparr>" x r a]
  by (simp add: socket_disconnect_def split: if_splits)

lemma socket_disconnect_level:
  "level (state (store (fst (snd (socket_disconnect s x))) a)) = level (state (store s a))"
  using disconnect_level [of "s\<lparr>connected := (connected s)(x := False)\<rparr>" x a]
  by (simp add: socket_disconnect_def)

lemma socket_disconnect_registry_ok:
  "registry_ok s \<Longrightarrow> registry_ok (fst (snd (socket_disconnect s x)))"
  using disconnect_registry_ok [of "s\<lparr>connected := (connected s)(x := False)\<rparr>" x]
  by (simp add: socket_disconnect_def registry_ok_def)

lemma socket_disconnect_seats_ok:
  "seats_ok cfg s \<Longrightarrow> seats_ok cfg (fst (snd (socket_disconnect s x)))"
  using disconnect_seats_ok [of cfg "s\<lparr>connected := (connected s)(x := False)\<rparr>" x]
  by (simp add: socket_disconnect_def seats_ok_def)

text \<open>The eviction of an older connection never removes the joining socket itself.\<close>

lemma evict_old_next_addr: "next_addr (fst (snd (evict_old s x u))) = next_addr s"
  by (simp add: evict_old_def socket_disconnect_next_addr split: option.splits)

lemma evict_old_players:
  "players (store (fst (snd (evict_old s x u))) a) = players (store s a)
   \<or> (\<exists>y. y \<noteq> x \<and> players (store (fst (snd (evict_old s x u))) a) = remove1 y (players (store s a)))"
  using socket_disconnect_players [of s _ a]
  by (auto simp: evict_old_def split: option.splits)

lemma evict_old_rooms:
  "rooms (fst (snd (evict_old s x u))) r = Some a \<Longrightarrow> rooms s r = Some a"
  using socket_disconnect_rooms [of s _ r a]
  by (auto simp: evict_old_def split: option.splits if_splits)

lemma evict_old_level:
  "level (state (store (fst (snd (evict_old s x u))) a)) = level (state (store s a))"
  by (simp add: evict_old_def socket_disconnect_level split: option.splits)

lemma evict_old_registry_ok:
  "registry_ok s \<Longrightarrow> registry_ok (fst (snd (evict_old s x u)))"
  by (simp add: evict_old_def socket_disconnect_registry_ok split: option.splits)

lemma evict_old_seats_ok:
  "seats_ok cfg s \<Longrightarrow> seats_ok cfg (fst (snd (evict_old s x u)))"
  by (simp add: evict_old_def socket_disconnect_seats_ok split: option.splits)

text \<open>Seating the first player of a fresh room object.\<close>

lemma seat_first_seats_ok: "seats_ok cfg s \<Longrightarrow> seats_ok cfg (seat_first s x r u)"
  by (auto simp: seats_ok_def seat_first_def new_room_def getRequiredPlayersCount_def)

lemma seat_first_registry_ok: "registry_ok s \<Longrightarrow> registry_ok (seat_first s x r u)"
  unfolding registry_ok_def seat_first_def new_room_def
  by (simp, metis less_SucI less_irrefl_nat)

lemma arm_timeout_frame:
  "rooms (arm_timeout r s) = rooms s"
  "next_addr (arm_timeout r s) = next_addr s"
  "players (store (arm_timeout r s) a) = players (store s a)"
  "level (state (store (arm_timeout r s) a)) = level (state (store s a))"
  by (simp_all add: arm_timeout_def split: option.splits)

lemma join_finish_frame:
  "rooms (fst (snd (join_finish cfg env s r))) = rooms s"
  "next_addr (fst (snd (join_finish cfg env s r))) = next_addr s"
  "players (store (fst (snd (join_finish cfg env s r))) a) = players (store s a)"
  "level (state (store (fst (snd (join_finish cfg env s r))) a)) = level (state (store s a))"
  by (simp_all add: join_finish_def Let_def case_prod_beta startGame_frame split: option.splits)

text \<open>The join handler, seen through the registry, the seats and the levels.\<close>

lemma joinRoom_fresh:
  assumes "rooms s r = None"
  shows "fst (snd (joinRoom cfg env s x r u)) =
           fst (snd (join_finish cfg env
             (if \<not> DEBUG_MODE cfg then arm_timeout r (seat_first s x r u) else seat_first s x r u) r))"
  using assms by (simp add: joinRoom_def Let_def)

lemma joinRoom_full:
  assumes "rooms s r = Some a"
    and "length (players (store s a)) \<ge> getRequiredPlayersCount cfg" and "x \<notin> set (players (store s a))"
  shows "joinRoom cfg env s x r u = (Returned, s, [ToSocket x (ErrorEvent RoomFull)])"
  using assms by (simp add: joinRoom_def)

lemma joinRoom_existing:
  assumes "rooms s r = Some a"
    and "\<not> (length (players (store s a)) \<ge> getRequiredPlayersCount cfg \<and> x \<notin> set (players (store s a)))"
  shows "fst (snd (joinRoom cfg env s x r u)) =
     (case fst (evict_old s x u) of
        Uncaught err \<Rightarrow> fst (snd (evict_old s x u))
      | Returned \<Rightarrow>
          (case rooms (fst (snd (evict_old s x u))) r of
             None \<Rightarrow> register_user (fst (snd (evict_old s x u))) x r u
           | Some a' \<Rightarrow>
               fst (snd (join_finish cfg env
                 (seat (register_user (fst (snd (evict_old s x u))) x r u) x a') r))))"
  using assms
  by (auto simp: joinRoom_def Let_def case_prod_beta register_user_def seat_def
      split: outcome.splits option.splits prod.splits)

lemma register_user_frame:
  "rooms (register_user s x r u) = rooms s"
  "next_addr (register_user s x r u) = next_addr s"
  "store (register_user s x r u) = store s"
  by (simp_all add: register_user_def)

lemma seat_frame:
  "rooms (seat s x a) = rooms s"
  "next_addr (seat s x a) = next_addr s"
  "level (state (store (seat s x a) b)) = level (state (store s b))"
  by (simp_all add: seat_def)

lemma seat_players:
  "players (store (seat s x a) b) =
     (if b = a \<and> x \<notin> set (players (store s a)) then players (store s a) @ [x]
      else players (store s b))"
  by (simp add: seat_def)

lemma seat_registry_ok: "registry_ok s \<Longrightarrow> registry_ok (seat s x a)"
  by (simp add: registry_ok_def seat_frame seat_players)

lemma seat_seats_ok:
  assumes "seats_ok cfg s"
    and "x \<in> set (players (store s a)) \<or> length (players (store s a)) < getRequiredPlayersCount cfg"
  shows "seats_ok cfg (seat s x a)"
  using assms by (auto simp: seats_ok_def seat_players Suc_le_eq)

text \<open>After the eviction the room still has a free seat, or the joining socket sits in it.\<close>

lemma evict_old_keeps_seat:
  assumes "\<not> (length (players (store s a)) \<ge> getRequiredPlayersCount cfg \<and> x \<notin> set (players (store s a)))"
  shows "x \<in> set (players (store (fst (snd (evict_old s x u))) a))
         \<or> length (players (store (fst (snd (evict_old s x u))) a)) < getRequiredPlayersCount cfg"
proof -
  from evict_old_players [of s x u a] show ?thesis
  proof (elim disjE exE conjE)
    assume "players (store (fst (snd (evict_old s x u))) a) = players (store s a)"
    with assms show ?thesis by auto
  next
    fix y
    assume y: "y \<noteq> x"
      and eq: "players (store (fst (snd (evict_old s x u))) a) = remove1 y (players (store s a))"
    have "length (remove1 y (players (store s a))) \<le> length (players (store s a))"
      by (simp add: length_remove1)
    moreover have "x \<in> set (players (store s a)) \<Longrightarrow> x \<in> set (remove1 y (players (store s a)))"
      using y by simp
    ultimately show ?thesis using assms eq by auto
  qed
qed

lemma joinRoom_seats_ok:
  assumes "seats_ok cfg s"
  shows "seats_ok cfg (fst (snd (joinRoom cfg env s x r u)))"
proof (cases "rooms s r")
  case None
  have "seats_ok cfg (if \<not> DEBUG_MODE cfg then arm_timeout r (seat_first s x r u) else seat_first s x r u)"
    using seat_first_seats_ok [OF assms, of x r u]
    by (simp add: seats_ok_def arm_timeout_frame)
  then show ?thesis
    unfolding joinRoom_fresh [OF None]
    by (rule frame_seats_ok [rotated]) (simp add: join_finish_frame)
next
  case (Some a)
  show ?thesis
  proof (cases "length (players (store s a)) \<ge> getRequiredPlayersCount cfg \<and> x \<notin> set (players (store s a))")
    case True
    then show ?thesis using assms joinRoom_full [OF Some, of cfg x env u] by simp
  next
    case False
    let ?s1 = "fst (snd (evict_old s x u))"
    have ok1: "seats_ok cfg ?s1" using assms by (rule evict_old_seats_ok)
    then have ok2: "seats_ok cfg (register_user ?s1 x r u)"
      by (simp add: seats_ok_def register_user_frame)
    have ok3: "seats_ok cfg (seat (register_user ?s1 x r u) x a')" if "rooms ?s1 r = Some a'" for a'
    proof -
      from that have "rooms s r = Some a'" by (rule evict_old_rooms)
      with Some have "a' = a" by simp
      with evict_old_keeps_seat [OF False, of u] ok2 show ?thesis
        by (intro seat_seats_ok) (simp_all add: register_user_frame)
    qed
    show ?thesis
      unfolding joinRoom_existing [OF Some False]
      using ok1 ok2 ok3
      by (auto split: outcome.splits option.splits intro: frame_seats_ok [rotated] simp: join_finish_frame)
  qed
qed

lemma joinRoom_registry_ok:
  assumes "registry_ok s"
  shows "registry_ok (fst (snd (joinRoom cfg env s x r u)))"
proof (cases "rooms s r")
  case None
  have "registry_ok (if \<not> DEBUG_MODE cfg then arm_timeout r (seat_first s x r u) else seat_first s x r u)"
    using seat_first_registry_ok [OF assms, of x r u]
    by (simp add: registry_ok_def arm_timeout_frame)
  then show ?thesis
    unfolding joinRoom_fresh [OF None]
    by (rule frame_registry_ok [rotated 3]) (simp_all add: join_finish_frame)
next
  case (Some a)
  show ?thesis
  proof (cases "length (players (store s a)) \<ge> getRequiredPlayersCount cfg \<and> x \<notin> set (players (store s a))")
    case True
    then show ?thesis using assms joinRoom_full [OF Some, of cfg x env u] by simp
  next
    case False
    let ?s1 = "fst (snd (evict_old s x u))"
    have ok1: "registry_ok ?s1" using assms by (rule evict_old_registry_ok)
    then have ok2: "registry_ok (register_user ?s1 x r u)"
      by (simp add: registry_ok_def register_user_frame)
    then have ok3: "registry_ok (seat (register_user ?s1 x r u) x a')" for a'
      by (rule seat_registry_ok)
    have ok4: "registry_ok (fst (snd (join_finish cfg env (seat (register_user ?s1 x r u) x a') r)))" for a'
      using ok3 [of a'] by (rule frame_registry_ok [rotated 3]) (simp_all add: join_finish_frame)
    show ?thesis
      unfolding joinRoom_existing [OF Some False]
      using ok1 ok2 ok4
      by (simp split: outcome.splits option.splits)
  qed
qed

lemma joinRoom_level:
  assumes "a < next_addr s"
  shows "level (state (store (fst (snd (joinRoom cfg env s x r u))) a)) = level (state (store s a))"
proof (cases "rooms s r")
  case None
  have "level (state (store (if \<not> DEBUG_MODE cfg then arm_timeout r (seat_first s x r u) else seat_first s x r u) a))
      = level (state (store s a))"
    using assms by (simp add: arm_timeout_frame seat_first_def)
  then show ?thesis
    unfolding joinRoom_fresh [OF None] by (simp add: join_finish_frame)
next
  case (Some b)
  show ?thesis
  proof (cases "length (players (store s b)) \<ge> getRequiredPlayersCount cfg \<and> x \<notin> set (players (store s b))")
    case True
    then show ?thesis using joinRoom_full [OF Some, of cfg x env u] by simp
  next
    case False
    show ?thesis
      unfolding joinRoom_existing [OF Some False]
      by (simp add: join_finish_frame seat_frame register_user_frame evict_old_level
          split: outcome.splits option.splits)
  qed
qed

lemma joinRoom_next_addr:
  "next_addr s \<le> next_addr (fst (snd (joinRoom cfg env s x r u)))"
proof (cases "rooms s r")
  case None
  show ?thesis
    unfolding joinRoom_fresh [OF None]
    by (simp add: join_finish_frame arm_timeout_frame seat_first_def)
next
  case (Some b)
  show ?thesis
  proof (cases "length (players (store s b)) \<ge> getRequiredPlayersCount cfg \<and> x \<notin> set (players (store s b))")
    case True
    then show ?thesis using joinRoom_full [OF Some, of cfg x env u] by simp
  next
    case False
    show ?thesis
      unfolding joinRoom_existing [OF Some False]
      by (simp add: join_finish_frame seat_frame register_user_frame evict_old_next_addr
          split: outcome.splits option.splits)
  qed
qed

lemma createRoom_seats_ok:
  "seats_ok cfg s \<Longrightarrow> seats_ok cfg (fst (createRoom cfg env s x r u))"
  using seat_first_seats_ok [of cfg s x r u]
  by (simp add: createRoom_def Let_def case_prod_beta seats_ok_def arm_timeout_frame startGame_frame)

lemma createRoom_registry_ok:
  "registry_ok s \<Longrightarrow> registry_ok (fst (createRoom cfg env s x r u))"
  using seat_first_registry_ok [of s x r u]
  by (simp add: createRoom_def Let_def case_prod_beta registry_ok_def arm_timeout_frame startGame_frame)

lemma createRoom_level:
  "a < next_addr s \<Longrightarrow>
     level (state (store (fst (createRoom cfg env s x r u)) a)) = level (state (store s a))"
  by (simp add: createRoom_def Let_def case_prod_beta arm_timeout_frame startGame_frame seat_first_def)

lemma createRoom_next_addr: "next_addr s \<le> next_addr (fst (createRoom cfg env s x r u))"
  by (simp add: createRoom_def Let_def case_prod_beta arm_timeout_frame startGame_frame seat_first_def)

lemma fire_gm_timer_frame:
  "rooms (fst (fire_gm_timer cfg env s k)) = rooms s"
  "next_addr (fst (fire_gm_timer cfg env s k)) = next_addr s"
  "players (store (fst (fire_gm_timer cfg env s k)) a) = players (store s a)"
  "level (state (store (fst (fire_gm_timer cfg env s k)) a)) = level (state (store s a))"
  by (simp_all add: fire_gm_timer_def Let_def case_prod_beta gm_narrate_frame)

lemma fire_gm_timer_waiting:
  "gm_waiting (fst (fire_gm_timer cfg env s k)) =
     (if k < length (gm_timers s)
      then gm_waiting s @
           [(fst (gm_timers s ! k), snd (gm_timers s ! k),
             fst (getGmResponse cfg env (store s (snd (gm_timers s ! k))) False),
             fst (generateImage cfg env
                   (fst (getGmResponse cfg env (store s (snd (gm_timers s ! k))) False))))]
      else gm_waiting s)"
  by (simp add: fire_gm_timer_def gm_narrate_def Let_def case_prod_beta)

lemma resume_gm_pass_frame:
  "rooms (fst (resume_gm_pass s k)) = rooms s"
  "next_addr (fst (resume_gm_pass s k)) = next_addr s"
  "players (store (fst (resume_gm_pass s k)) a) = players (store s a)"
  by (simp_all add: resume_gm_pass_def Let_def case_prod_beta gm_conclude_players)

lemma resume_gm_pass_level:
  "level (state (store (fst (resume_gm_pass s k)) a)) =
     level (state (store s a)) +
       (if k < length (gm_waiting s) \<and> fst (snd (gm_waiting s ! k)) = a
           \<and> includes_js (toLowerCase (fst (snd (snd (gm_waiting s ! k))))) level_marker
        then 1 else 0)"
  by (simp add: resume_gm_pass_def Let_def case_prod_beta gm_conclude_level)

lemma fire_join_timer_frame:
  "next_addr (fst (fire_join_timer cfg s k)) = next_addr s"
  "store (fst (fire_join_timer cfg s k)) = store s"
  by (simp_all add: fire_join_timer_def join_timeout_def split: option.splits)

lemma fire_join_timer_rooms:
  "rooms (fst (fire_join_timer cfg s k)) r = Some a \<Longrightarrow> rooms s r = Some a"
  by (auto simp: fire_join_timer_def join_timeout_def split: option.splits if_splits)

lemma fire_join_timer_registry_ok:
  "registry_ok s \<Longrightarrow> registry_ok (fst (fire_join_timer cfg s k))"
  unfolding registry_ok_def
  by (metis fire_join_timer_frame fire_join_timer_rooms)

lemma connection_frame:
  "rooms (connection s x) = rooms s"
  "next_addr (connection s x) = next_addr s"
  "store (connection s x) = store s"
  by (simp_all add: connection_def)

text \<open>Every step keeps the two invariants, whatever its outcome.\<close>

lemma step_seats_ok:
  assumes "seats_ok cfg s"
  shows "seats_ok cfg (fst (snd (step cfg env s i)))"
proof (cases i)
  case (Connection x)
  with assms show ?thesis by (simp add: step_def seats_ok_def connection_frame)
next
  case (CreateRoom x r u)
  with assms createRoom_seats_ok [OF assms, of env x r u] show ?thesis
    by (simp add: step_def case_prod_beta)
next
  case (JoinRoom x r u)
  with assms joinRoom_seats_ok [OF assms, of env x r u] show ?thesis
    by (simp add: step_def)
next
  case (Action x r ty tx)
  with assms show ?thesis
    by (simp add: step_def case_prod_beta seats_ok_def action_frame)
next
  case (Disconnect x)
  with socket_disconnect_seats_ok [OF assms, of x] show ?thesis by (simp add: step_def)
next
  case (GmTimer k)
  with assms show ?thesis
    by (simp add: step_def case_prod_beta seats_ok_def fire_gm_timer_frame)
next
  case (GmResume k)
  with assms show ?thesis
    by (simp add: step_def case_prod_beta seats_ok_def resume_gm_pass_frame)
next
  case (JoinTimer k)
  with assms show ?thesis
    by (simp add: step_def case_prod_beta seats_ok_def fire_join_timer_frame)
qed

lemma step_registry_ok:
  assumes "registry_ok s"
  shows "registry_ok (fst (snd (step cfg env s i)))"
proof (cases i)
  case (Connection x)
  with assms show ?thesis by (simp add: step_def registry_ok_def connection_frame)
next
  case (CreateRoom x r u)
  with assms createRoom_registry_ok [OF assms, of cfg env x r u] show ?thesis
    by (simp add: step_def case_prod_beta)
next
  case (JoinRoom x r u)
  with assms joinRoom_registry_ok [OF assms, of cfg env x r u] show ?thesis
    by (simp add: step_def)
next
  case (Action x r ty tx)
  with assms show ?thesis
    by (simp add: step_def case_prod_beta registry_ok_def action_frame)
next
  case (Disconnect x)
  with socket_disconnect_registry_ok [OF assms, of x] show ?thesis by (simp add: step_def)
next
  case (GmTimer k)
  with assms show ?thesis
    by (simp add: step_def case_prod_beta registry_ok_def fire_gm_timer_frame)
next
  case (GmResume k)
  with assms show ?thesis
    by (simp add: step_def case_prod_beta registry_ok_def resume_gm_pass_frame)
next
  case (JoinTimer k)
  with fire_join_timer_registry_ok [OF assms, of cfg k] show ?thesis
    by (simp add: step_def case_prod_beta)
qed

lemma step_next_addr: "next_addr s \<le> next_addr (fst (snd (step cfg env s i)))"
  by (cases i)
    (simp_all add: step_def case_prod_beta connection_frame createRoom_next_addr joinRoom_next_addr
      action_frame socket_disconnect_next_addr fire_gm_timer_frame resume_gm_pass_frame
      fire_join_timer_frame)

lemma step_level:
  assumes "a < next_addr s"
  shows "level (state (store (fst (snd (step cfg env s i))) a)) =
     level (state (store s a)) +
       (if \<exists>k. i = GmResume k \<and> k < length (gm_waiting s) \<and> fst (snd (gm_waiting s ! k)) = a
              \<and> includes_js (toLowerCase (fst (snd (snd (gm_waiting s ! k))))) level_marker
        then 1 else 0)"
  using assms
  by (cases i)
    (simp_all add: step_def case_prod_beta connection_frame createRoom_level joinRoom_level
      action_frame socket_disconnect_level fire_gm_timer_frame resume_gm_pass_level
      fire_join_timer_frame)

lemma init_ok: "seats_ok cfg init" "registry_ok init"
  by (simp_all add: seats_ok_def registry_ok_def init_def new_room_def)

lemma reachable_ok: "reachable cfg s \<Longrightarrow> seats_ok cfg s \<and> registry_ok s"
proof (induction rule: reachable.induct)
  case reachable_init
  show ?case by (simp add: init_ok)
next
  case (reachable_step s env i s' e)
  from step_seats_ok [of cfg s env i] step_registry_ok [of s cfg env i] reachable_step
  show ?case by simp
qed

lemma run_level:
  "a < next_addr s \<Longrightarrow>
     level (state (store s a)) \<le> level (state (store (fst (snd (run cfg s ios))) a))"
proof (induction ios arbitrary: s)
  case Nil
  then show ?case by simp
next
  case (Cons p ios)
  obtain i env where p: "p = (i, env)" by (cases p)
  obtain out s' e where st: "step cfg env s i = (out, s', e)" by (cases "step cfg env s i")
  from step_level [OF Cons.prems, of cfg env i] st
  have le: "level (state (store s a)) \<le> level (state (store s' a))" by simp
  show ?case
  proof (cases out)
    case Returned
    from step_next_addr [of s cfg env i] st Cons.prems have "a < next_addr s'" by simp
    from Cons.IH [OF this] le show ?thesis
      using p st Returned by (simp add: case_prod_beta)
  next
    case (Uncaught err)
    with le p st show ?thesis by simp
  qed
qed

lemma run_reachable:
  "reachable cfg s \<Longrightarrow> run cfg s ios = (Returned, s', e) \<Longrightarrow> reachable cfg s'"
proof (induction ios arbitrary: s e)
  case Nil
  then show ?case by simp
next
  case (Cons p ios)
  obtain i env where p: "p = (i, env)" by (cases p)
  obtain out s1 e1 where st: "step cfg env s i = (out, s1, e1)" by (cases "step cfg env s i")
  show ?case
  proof (cases out)
    case Returned
    with st Cons.prems(1) have r1: "reachable cfg s1" by (auto intro: reachable_step)
    obtain out2 s2 e2 where rn: "run cfg s1 ios = (out2, s2, e2)" by (cases "run cfg s1 ios")
    with Cons.prems(2) p st Returned have "out2 = Returned" "s2 = s'" by simp_all
    with rn Cons.IH [OF r1] show ?thesis by simp
  next
    case (Uncaught err)
    with Cons.prems(2) p st show ?thesis by simp
  qed
qed

subsection \<open>Evaluating concrete runs\<close>

lemmas handler_defs =
  step_def connection_def createRoom_def joinRoom_def action_def disconnect_def
  socket_disconnect_def evict_old_def join_finish_def seat_first_def arm_timeout_def
  register_user_def seat_def startGame_def nextTurn_def fire_gm_timer_def resume_gm_pass_def
  fire_join_timer_def join_timeout_def gm_narrate_def gm_conclude_def level_complete_def getGmResponse_def updateGameMemory_def
  update_goal_def update_history_def update_memory_def generateImage_def fetchMistral_def
  has_goal_def set_goal_def push_history_def set_turn_def getRequiredPlayersCount_def
  new_room_def init_def playerNames_def name_or_default_def truthy_def str_of_def js_or_def
  findIndex_def splice1_def slice_last_def goal_or_def fallback_image_def image_name_def
  image_prompt_def toLowerCase_def lower_unit_def level_marker_def startsWith_def
  gm_fallback_def goal_default_prefix_def goal_fast_prefix_def num_str_def nat_digits.simps

lemmas scenario_defs =
  alice_def bob_def carol_def dave_def lobby_def cellar_def standard_def debugging_def
  fast_def silent_def completing_def summarising_def crowded_def final_room_def ascii_def
  one_round_def four_levels_def to_the_end_def overtaking_def

lemma waiting_reachable: "reachable standard waiting"
proof -
  have "run standard init
      [(Connection alice, silent), (JoinRoom alice lobby (Some (ascii ''alice'')), silent)] =
      (Returned, waiting, snd (snd (run standard init
      [(Connection alice, silent), (JoinRoom alice lobby (Some (ascii ''alice'')), silent)])))"
    unfolding waiting_def by (simp add: handler_defs scenario_defs Let_def)
  from run_reachable [OF reachable_init this] show ?thesis .
qed

lemma waiting_facts:
  "rooms waiting lobby = Some 0"
  "players (store waiting 0) = [alice]"
  "turn (state (store waiting 0)) = GM"
  "roomId waiting alice = Some lobby"
  by (simp_all add: waiting_def handler_defs scenario_defs Let_def)

lemma playing_reachable: "reachable standard playing"
proof -
  have "run standard init
      [(Connection alice, silent), (Connection bob, silent), (Connection carol, silent),
       (JoinRoom alice lobby (Some (ascii ''alice'')), silent),
       (JoinRoom bob lobby (Some (ascii ''bob'')), silent),
       (JoinRoom carol lobby (Some (ascii ''carol'')), silent)] =
      (Returned, playing,
       snd (snd (run standard init
      [(Connection alice, silent), (Connection bob, silent), (Connection carol, silent),
       (JoinRoom alice lobby (Some (ascii ''alice'')), silent),
       (JoinRoom bob lobby (Some (ascii ''bob'')), silent),
       (JoinRoom carol lobby (Some (ascii ''carol'')), silent)])))"
    unfolding playing_def by (simp add: handler_defs scenario_defs Let_def)
  from run_reachable [OF reachable_init this] show ?thesis .
qed

lemma playing_facts:
  "rooms playing lobby = Some 0"
  "players (store playing 0) = [alice, bob, carol]"
  by (simp_all add: playing_def handler_defs scenario_defs Let_def)

lemma started_facts:
  "0 < next_addr started"
  "gm_timers started = [(lobby, 0)]"
  "gm_waiting started = []"
  "level (state (store started 0)) = 1"
  by (simp_all add: started_def handler_defs scenario_defs Let_def)

lemma answered_facts:
  "0 < next_addr answered"
  "gm_waiting answered =
     [(lobby, 0, ascii ''Level Complete!'', ascii ''https://game.example/fallback-image.png'')]"
  "level (state (store answered 0)) = 1"
  by (simp_all add: answered_def started_def handler_defs scenario_defs Let_def)

lemma unanswered_facts:
  "0 < next_addr unanswered"
  "gm_waiting unanswered =
     [(lobby, 0, gm_fallback, ascii ''https://game.example/fallback-image.png'')]"
  "level (state (store unanswered 0)) = 1"
  by (simp_all add: unanswered_def started_def handler_defs scenario_defs Let_def)

lemma marker_found:
  "includes_js (toLowerCase (ascii ''Level Complete!'')) level_marker"
  by (simp add: level_marker_def toLowerCase_def lower_unit_def ascii_def startsWith_def)

lemma fallback_has_no_marker: "\<not> includes_js (toLowerCase gm_fallback) level_marker"
  by (simp add: gm_fallback_def level_marker_def toLowerCase_def lower_unit_def ascii_def
      startsWith_def)

subsection \<open>Turn check of the action handler\<close>

lemma action_effects:
  assumes "rooms s r = Some a"
  shows "snd (action cfg env s x r ty msg) =
     (if DEBUG_MODE cfg \<or> turn (state (store s a)) = Num (findIndex x (players (store s a)) + 1)
      then ToRoom r (SayMessage (username s x) msg) # drop 1 (snd (action cfg env s x r ty msg))
      else [ToSocket x (ErrorEvent NotYourTurn)])"
  using assms by (simp add: action_def Let_def case_prod_beta)

text \<open>
  Claim C1. For a room of the registry and an action a socket submits, the action is
  accepted exactly when the server runs in debug mode or the room's turn is the number of
  the socket's seat (its index in the players array plus one). A rejected action sends the
  "not your turn" error to the submitter alone and leaves the whole server state as it was;
  an accepted one starts with a broadcast to the room.
\<close>

theorem action_turn_check:
  assumes "rooms s r = Some a"
  shows "((DEBUG_MODE cfg \<or> turn (state (store s a)) = Num (findIndex x (players (store s a)) + 1))
           \<longleftrightarrow> snd (action cfg env s x r ty msg) \<noteq> [ToSocket x (ErrorEvent NotYourTurn)])
       \<and> (snd (action cfg env s x r ty msg) = [ToSocket x (ErrorEvent NotYourTurn)]
            \<longrightarrow> fst (action cfg env s x r ty msg) = s)
       \<and> (snd (action cfg env s x r ty msg) \<noteq> [ToSocket x (ErrorEvent NotYourTurn)]
            \<longrightarrow> (\<exists>rest. snd (action cfg env s x r ty msg) =
                   ToRoom r (SayMessage (username s x) msg) # rest))"
proof (cases "DEBUG_MODE cfg \<or> turn (state (store s a)) = Num (findIndex x (players (store s a)) + 1)")
  case True
  from this action_effects [OF assms, of cfg env x ty msg]
  have "snd (action cfg env s x r ty msg) =
      ToRoom r (SayMessage (username s x) msg) # drop 1 (snd (action cfg env s x r ty msg))"
    by simp
  then have "\<exists>rest. snd (action cfg env s x r ty msg) = ToRoom r (SayMessage (username s x) msg) # rest"
    by blast
  with True show ?thesis by auto
next
  case False
  with assms have "action cfg env s x r ty msg = (s, [ToSocket x (ErrorEvent NotYourTurn)])"
    by (simp add: action_def Let_def)
  with False show ?thesis by simp
qed

text \<open>
  In standard mode, before the game has started, the turn is the game master's: the action
  of the only seated player is rejected and nothing changes.
\<close>

theorem action_turn_check_witness:
  "rooms waiting lobby = Some 0
   \<and> snd (action standard silent waiting alice lobby (ascii ''use'') (ascii ''pull lever''))
       = [ToSocket alice (ErrorEvent NotYourTurn)]
   \<and> fst (action standard silent waiting alice lobby (ascii ''use'') (ascii ''pull lever''))
       = waiting"
proof -
  have "\<not> (DEBUG_MODE standard
      \<or> turn (state (store waiting 0)) = Num (findIndex alice (players (store waiting 0)) + 1))"
    by (simp add: waiting_facts standard_def)
  with action_turn_check [OF waiting_facts(1), of standard alice silent "ascii ''use''"
      "ascii ''pull lever''"] waiting_facts(1)
  show ?thesis by blast
qed

text \<open>The handler of \<^verbatim>\<open>src/app/index.js\<close> makes the same check.\<close>

lemma action_baseline_turn_check:
  assumes "rooms s r = Some a"
  shows "((DEBUG_MODE cfg \<or> turn (state (store s a)) = Num (findIndex x (players (store s a)) + 1))
           \<longleftrightarrow> snd (action_baseline cfg env s x r ty msg) \<noteq> [ToSocket x (ErrorEvent NotYourTurn)])
       \<and> (snd (action_baseline cfg env s x r ty msg) = [ToSocket x (ErrorEvent NotYourTurn)]
            \<longrightarrow> fst (action_baseline cfg env s x r ty msg) = s)"
proof (cases "DEBUG_MODE cfg \<or> turn (state (store s a)) = Num (findIndex x (players (store s a)) + 1)")
  case True
  have "ToSocket x (ErrorEvent NotYourTurn) \<notin> set (snd (action_baseline cfg env s x r ty msg))"
    using True assms
    by (auto simp: action_baseline_def Let_def case_prod_beta nextTurn_def
        getGmResponse_baseline_def generateImage_def split: option.splits)
  then have "snd (action_baseline cfg env s x r ty msg) \<noteq> [ToSocket x (ErrorEvent NotYourTurn)]"
    by auto
  with True show ?thesis by simp
next
  case False
  with assms have "action_baseline cfg env s x r ty msg = (s, [ToSocket x (ErrorEvent NotYourTurn)])"
    by (simp add: action_baseline_def Let_def)
  with False show ?thesis by simp
qed

subsection \<open>The say action\<close>

text \<open>
  In \<^verbatim>\<open>src/app/index.js\<close> an accepted \<^verbatim>\<open>say\<close> action is one broadcast and leaves the
  state alone.
\<close>

lemma action_baseline_say:
  assumes "rooms s r = Some a"
    and "DEBUG_MODE cfg \<or> turn (state (store s a)) = Num (findIndex x (players (store s a)) + 1)"
  shows "action_baseline cfg env s x r (ascii ''say'') msg =
           (s, [ToRoom r (SayMessage (username s x) msg)])"
  using assms by (auto simp: action_baseline_def Let_def)

text \<open>
  Claim C2. An accepted \<^verbatim>\<open>say\<close> action should only broadcast the chat line: no history
  line, no request to the game master, no change of turn. The handler of the last
  generation does more. With three players seated and the first to move, her chat line is
  broadcast, then written to the history, the game master is asked (the request fails here
  and the fallback sentence is narrated), the scene update is broadcast, and the turn
  passes to the second player.
\<close>

theorem say_consumes_turn:
  "turn (state (store playing 0)) = Num 1
   \<and> history (state (store playing 0)) = [ascii ''GM: '' @ gm_fallback]
   \<and> turn (state (store (fst (action standard silent playing alice lobby (ascii ''say'')
         (ascii ''hi''))) 0)) = Num 2
   \<and> history (state (store (fst (action standard silent playing alice lobby (ascii ''say'')
         (ascii ''hi''))) 0)) =
       [ascii ''GM: '' @ gm_fallback, ascii ''alice say: hi'', ascii ''GM: '' @ gm_fallback]
   \<and> snd (action standard silent playing alice lobby (ascii ''say'') (ascii ''hi'')) =
       [ToRoom lobby (SayMessage (Some (ascii ''alice'')) (ascii ''hi'')),
        LlmCall NarrationRequest,
        ImageCall (image_prompt gm_fallback),
        ToRoom lobby (GmUpdate gm_fallback (ascii ''https://game.example/fallback-image.png'')),
        ToRoom lobby (PlayerTurn 2)]"
  by (simp add: playing_def handler_defs scenario_defs Let_def)

subsection \<open>Levels\<close>

text \<open>
  Claim C3. A step of the server changes the level of a room object only when it is the
  final part of a narration pass of that room and the narration the pass goes on with, in
  lower case, contains \<^verbatim>\<open>level complete\<close>: then the level grows by exactly one. Every
  other step, and a pass whose text lacks the marker, leaves the level as it is. The text
  a pass goes on with is the text \<^verbatim>\<open>getGmResponse\<close> returned when its timer fired. So
  along every run the level of a room object never decreases. The narrations that
  \<^verbatim>\<open>startGame\<close> and the action handler request are not searched for the marker. (The
  first draft of the server, \<^verbatim>\<open>src/unnamed/part_000\<close>, searches the text as it comes;
  the two later generations lower-case it first.)
\<close>

theorem level_steps:
  assumes "a < next_addr s"
  shows "level (state (store (fst (snd (step cfg env s i))) a)) =
           level (state (store s a)) +
             (if \<exists>k. i = GmResume k \<and> k < length (gm_waiting s)
                    \<and> fst (snd (gm_waiting s ! k)) = a
                    \<and> includes_js (toLowerCase (fst (snd (snd (gm_waiting s ! k)))))
                         level_marker
              then 1 else 0)
         \<and> (i = GmTimer k \<and> k < length (gm_timers s) \<longrightarrow>
              gm_waiting (fst (snd (step cfg env s i))) =
                gm_waiting s @
                [(fst (gm_timers s ! k), snd (gm_timers s ! k),
                  fst (getGmResponse cfg env (store s (snd (gm_timers s ! k))) False),
                  fst (generateImage cfg env
                        (fst (getGmResponse cfg env (store s (snd (gm_timers s ! k))) False))))])
         \<and> level (state (store s a)) \<le> level (state (store (fst (snd (run cfg s ios))) a))"
  using step_level [OF assms, of cfg env i] run_level [OF assms, of cfg ios]
    fire_gm_timer_waiting [of cfg env s k]
  by (simp add: step_def case_prod_beta)

text \<open>
  A pending pass on a room of level 1. When its timer fires the pass keeps the text the
  model gave. The text "Level Complete!" then takes the room to level 2, the fallback
  sentence leaves it at 1.
\<close>

theorem level_steps_witness:
  "0 < next_addr started \<and> 0 < length (gm_timers started)
   \<and> gm_waiting (fst (snd (step debugging completing started (GmTimer 0)))) =
       [(lobby, 0, ascii ''Level Complete!'', ascii ''https://game.example/fallback-image.png'')]
   \<and> level (state (store answered 0)) = 1
   \<and> level (state (store (fst (snd (step debugging silent answered (GmResume 0)))) 0)) = 2
   \<and> level (state (store (fst (snd (step debugging silent unanswered (GmResume 0)))) 0)) = 1
   \<and> level (state (store answered 0))
       \<le> level (state (store (fst (snd (run debugging answered [(GmResume 0, silent)]))) 0))"
proof -
  have c: "fst (getGmResponse debugging completing (store started 0) False) = ascii ''Level Complete!''"
    by (simp add: getGmResponse_def debugging_def completing_def silent_def case_prod_beta
        ascii_def)
  have d: "fst (generateImage debugging completing (ascii ''Level Complete!''))
      = ascii ''https://game.example/fallback-image.png''"
    by (simp add: generateImage_def fallback_image_def str_of_def debugging_def completing_def
        silent_def ascii_def)
  from level_steps [OF started_facts(1), of debugging completing "GmTimer 0" 0 "[]"]
    level_steps [OF answered_facts(1), of debugging silent "GmResume 0" 0
      "[(GmResume 0, silent)]"]
    level_steps [OF unanswered_facts(1), of debugging silent "GmResume 0" 0 "[]"]
    started_facts answered_facts unanswered_facts c d marker_found fallback_has_no_marker
  show ?thesis by (simp add: lobby_def)
qed

subsection \<open>The end of the game\<close>

lemma getGmResponse_effects:
  "ToRoom r ev \<notin> set (snd (snd (getGmResponse cfg env room b)))"
  by (auto simp: getGmResponse_def updateGameMemory_def update_goal_def update_history_def
      update_memory_def case_prod_beta Let_def)

lemma generateImage_effects: "ToRoom r ev \<notin> set (snd (generateImage cfg env d))"
  by (auto simp: generateImage_def split: option.splits)

lemma gm_narrate_effects: "ToRoom r ev \<notin> set (snd (snd (snd (gm_narrate cfg env room))))"
  using getGmResponse_effects [of r ev cfg env room False]
    generateImage_effects [of r ev cfg env "fst (getGmResponse cfg env room False)"]
  by (simp add: gm_narrate_def case_prod_beta)

lemma gm_conclude_game_end:
  assumes "5 < level (state (fst (gm_conclude r txt0 url room)))"
  shows "ToRoom r GameEnd \<in> set (snd (gm_conclude r txt0 url room))"
    and "ToRoom r GmTurn \<notin> set (snd (gm_conclude r txt0 url room))"
    and "ToRoom r (PlayerTurn n) \<notin> set (snd (gm_conclude r txt0 url room))"
    and "turn (state (fst (gm_conclude r txt0 url room))) = turn (state room)"
  using assms
  by (auto simp: gm_conclude_def level_complete_def push_history_def set_turn_def Let_def
      case_prod_beta split: if_splits)

text \<open>
  Claim C4, as the code has it. The first part of a narration pass, which waits for the
  adapters, sends nothing to the room and leaves level and turn alone. When the final part
  leaves the level above 5 it broadcasts the game-end event, sends no player-turn and no
  game-master-turn event, and does not touch the turn. In standard mode, while the turn is
  the game master's, every action is rejected with the "not your turn" error and no event
  goes to the room.
\<close>

theorem game_end_pass:
  "(5 < level (state (fst (gm_conclude r txt0 url room))) \<longrightarrow>
      ToRoom r GameEnd \<in> set (snd (gm_conclude r txt0 url room))
      \<and> ToRoom r GmTurn \<notin> set (snd (gm_conclude r txt0 url room))
      \<and> (\<forall>n. ToRoom r (PlayerTurn n) \<notin> set (snd (gm_conclude r txt0 url room)))
      \<and> turn (state (fst (gm_conclude r txt0 url room))) = turn (state room))
   \<and> (\<forall>r' ev. ToRoom r' ev \<notin> set (snd (snd (snd (gm_narrate cfg env room0)))))
   \<and> level (state (fst (snd (snd (gm_narrate cfg env room0))))) = level (state room0)
   \<and> turn (state (fst (snd (snd (gm_narrate cfg env room0))))) = turn (state room0)
   \<and> (\<not> DEBUG_MODE cfg \<and> rooms s r = Some a \<and> turn (state (store s a)) = GM \<longrightarrow>
        action cfg env s x r ty msg = (s, [ToSocket x (ErrorEvent NotYourTurn)]))"
  using gm_conclude_game_end [of r txt0 url room] gm_narrate_effects [of _ _ cfg env room0]
  by (auto simp: action_def Let_def gm_narrate_frame)

theorem game_end_pass_witness:
  "fst (gm_narrate standard completing final_room) = ascii ''Level Complete!''
   \<and> level (state (fst (snd (snd (gm_narrate standard completing final_room))))) = 5
   \<and> 5 < level (state (fst (gm_conclude lobby (ascii ''Level Complete!'') (ascii ''u'')
           (fst (snd (snd (gm_narrate standard completing final_room)))))))
   \<and> ToRoom lobby GameEnd \<in> set (snd (gm_conclude lobby (ascii ''Level Complete!'') (ascii ''u'')
           (fst (snd (snd (gm_narrate standard completing final_room))))))
   \<and> ToRoom lobby GmTurn \<notin> set (snd (gm_conclude lobby (ascii ''Level Complete!'') (ascii ''u'')
           (fst (snd (snd (gm_narrate standard completing final_room))))))
   \<and> ToRoom lobby (PlayerTurn 1) \<notin> set (snd (gm_conclude lobby (ascii ''Level Complete!'')
           (ascii ''u'') (fst (snd (snd (gm_narrate standard completing final_room))))))
   \<and> turn (state (fst (gm_conclude lobby (ascii ''Level Complete!'') (ascii ''u'')
           (fst (snd (snd (gm_narrate standard completing final_room))))))) = GM
   \<and> \<not> DEBUG_MODE standard \<and> rooms waiting lobby = Some 0 \<and> turn (state (store waiting 0)) = GM
   \<and> action standard completing waiting alice lobby (ascii ''use'') (ascii ''key'')
        = (waiting, [ToSocket alice (ErrorEvent NotYourTurn)])"
proof -
  have a: "fst (gm_narrate standard completing final_room) = ascii ''Level Complete!''"
    "level (state (fst (snd (snd (gm_narrate standard completing final_room))))) = 5"
    "turn (state (fst (snd (snd (gm_narrate standard completing final_room))))) = GM"
    "5 < level (state (fst (gm_conclude lobby (ascii ''Level Complete!'') (ascii ''u'')
           (fst (snd (snd (gm_narrate standard completing final_room)))))))"
    by (simp_all add: handler_defs scenario_defs Let_def)
  have b: "\<not> DEBUG_MODE standard" by (simp add: standard_def)
  from game_end_pass [where r = lobby and ?txt0.0 = "ascii ''Level Complete!''"
      and url = "ascii ''u''"
      and room = "fst (snd (snd (gm_narrate standard completing final_room)))"
      and cfg = standard and env = completing and ?room0.0 = final_room and s = waiting
      and a = 0 and x = alice and ty = "ascii ''use''" and msg = "ascii ''key''"]
    a b waiting_facts
  show ?thesis by simp
qed

text \<open>
  The claim as the specification states it fails in debug mode, where every action is
  accepted. The single player runs through five levels; the fifth completion takes the
  level to 6 and the game-end event is sent. The player then acts again, and the room
  receives a game-master-turn event.
\<close>

theorem game_end_not_final:
  "fst (run debugging init to_the_end) = Returned
   \<and> level (state (store ended 0)) = 6
   \<and> ToRoom lobby GameEnd \<in> set (snd (snd (run debugging init to_the_end)))
   \<and> ToRoom lobby GmTurn \<in>
       set (snd (snd (step debugging silent ended
         (Action alice lobby (ascii ''use'') (ascii ''door'')))))"
  by (simp add: ended_def handler_defs scenario_defs Let_def)

text \<open>
  In both modes a seated player who joins a full room once more starts the game again:
  the room receives a player-turn event and the turn is the first player's, whatever the
  level is.
\<close>

lemma startGame_effects:
  "rooms s r = Some a \<Longrightarrow> ToRoom r (PlayerTurn 1) \<in> set (snd (startGame cfg env s r))"
  by (simp add: startGame_def Let_def case_prod_beta)

lemma rejoin_starts_again:
  assumes "rooms s r = Some a" and "x \<in> set (players (store s a))"
    and "getRequiredPlayersCount cfg \<le> length (players (store s a))"
    and "map_of (connectedUsers s) u = Some x"
  shows "ToRoom r (PlayerTurn 1) \<in> set (snd (snd (joinRoom cfg env s x r u)))"
  using assms startGame_effects [of "register_user s x r u" r a cfg env]
  by (simp add: joinRoom_def evict_old_def register_user_def seat_def join_finish_def Let_def
      case_prod_beta)

subsection \<open>A failing language model\<close>

text \<open>
  The memory update that runs before the narration request writes the history in one
  place only, where it keeps the last two lines: it never empties a history.
\<close>

lemma memory_update_keeps_history:
  "history (state r) \<noteq> [] \<Longrightarrow> history (state (fst (updateGameMemory cfg env r))) \<noteq> []"
  by (auto simp: updateGameMemory_def update_goal_def update_history_def update_memory_def
      set_goal_def slice_last_def case_prod_beta Let_def)

text \<open>
  Claim C10, as the code has it. The fallback sentence does not contain the marker. A
  narration pass whose request to the language model fails goes on with the fallback
  sentence; while it waits it sends nothing to the room and leaves the level alone. Its
  final part, on the room as it is then, leaves the level as it is, appends the fallback
  line to the history (the history is not emptied) and sends no level-complete event. It
  sends the game-end event exactly when the level of the room is above 5 at that moment.
\<close>

theorem outage_pass:
  assumes "\<not> FAST_DEBUG cfg" and "narration_reply env = None"
  shows "\<not> includes_js (toLowerCase gm_fallback) level_marker
       \<and> fst (gm_narrate cfg env room) = gm_fallback
       \<and> level (state (fst (snd (snd (gm_narrate cfg env room))))) = level (state room)
       \<and> (\<forall>r' ev. ToRoom r' ev \<notin> set (snd (snd (snd (gm_narrate cfg env room)))))
       \<and> level (state (fst (gm_conclude r gm_fallback url room'))) = level (state room')
       \<and> history (state (fst (gm_conclude r gm_fallback url room'))) =
           history (state room') @ [ascii ''GM: '' @ gm_fallback]
       \<and> (\<forall>l g. ToRoom r (LevelComplete l g) \<notin> set (snd (gm_conclude r gm_fallback url room')))
       \<and> (ToRoom r GameEnd \<in> set (snd (gm_conclude r gm_fallback url room'))
            \<longleftrightarrow> 5 < level (state room'))"
proof -
  have fb: "fst (gm_narrate cfg env room) = gm_fallback"
    using assms by (simp add: gm_narrate_def getGmResponse_def case_prod_beta)
  show ?thesis
    using fallback_has_no_marker fb gm_narrate_effects [of _ _ cfg env room]
    by (auto simp: gm_conclude_def push_history_def set_turn_def Let_def gm_narrate_frame)
qed

text \<open>
  A pass at level 1 whose request fails: the fallback line is appended, the level stays 1,
  the turn goes to the player and no game-end event is sent.
\<close>

theorem outage_pass_witness:
  "\<not> FAST_DEBUG debugging \<and> narration_reply silent = None
   \<and> fst (gm_narrate debugging silent (store started 0)) = gm_fallback
   \<and> level (state (fst (gm_conclude lobby gm_fallback (ascii ''u'') (store unanswered 0)))) = 1
   \<and> history (state (fst (gm_conclude lobby gm_fallback (ascii ''u'') (store unanswered 0)))) =
       history (state (store unanswered 0)) @ [ascii ''GM: '' @ gm_fallback]
   \<and> ToRoom lobby GameEnd \<notin> set (snd (gm_conclude lobby gm_fallback (ascii ''u'')
         (store unanswered 0)))"
proof -
  have a: "\<not> FAST_DEBUG debugging" "narration_reply silent = None"
    by (simp_all add: debugging_def silent_def)
  from outage_pass [OF a, of "store started 0" lobby "ascii ''u''" "store unanswered 0"]
    a unanswered_facts
  show ?thesis by simp
qed

text \<open>
  The claim as the specification states it fails after the end of a game in debug mode.
  The player acts at level 6; the pass that follows gets no answer from the language model
  and still sends the game-end event.
\<close>

theorem outage_after_game_end:
  "narration_reply silent = None
   \<and> level (state (store resumed 0)) = 6
   \<and> gm_timers resumed = [(lobby, 0)]
   \<and> fst (run debugging resumed [(GmTimer 0, silent), (GmResume 0, silent)]) = Returned
   \<and> ToRoom lobby GameEnd \<in>
       set (snd (snd (run debugging resumed [(GmTimer 0, silent), (GmResume 0, silent)])))"
  by (simp add: resumed_def ended_def handler_defs scenario_defs Let_def)

text \<open>
  It fails as well for a pass that starts at level 5 and is overtaken. Two passes wait on
  one room; the one with the answer of the model finishes first and takes the level to 6;
  the one whose request failed finishes after it and sends the game-end event.
\<close>

lemma outage_overtaken:
  "fst (run debugging init overtaking) = Returned
   \<and> level (state (store overtaken 0)) = 6
   \<and> gm_waiting overtaken
       = [(lobby, 0, gm_fallback, ascii ''https://game.example/fallback-image.png'')]
   \<and> ToRoom lobby GameEnd \<in> set (snd (snd (step debugging silent overtaken (GmResume 0))))"
  by (simp add: overtaken_def handler_defs scenario_defs Let_def)

subsection \<open>Fast-debug mode\<close>

text \<open>
  Claim C9. With the fast-debug flag set, \<^verbatim>\<open>generateImage\<close> returns the fallback address
  (the configured domain followed by \<^verbatim>\<open>/fallback-image.png\<close>) and \<^verbatim>\<open>getGmResponse\<close>
  returns the first canned text for an initial call and the second for any other. Neither
  result depends on the description, the room or the answers of the outside world, the
  room is handed back unchanged, and the list of effects is empty: no request leaves the
  server.
\<close>

theorem fast_debug_fixed:
  "FAST_DEBUG cfg \<Longrightarrow>
     generateImage cfg env description = (str_of (DOMAIN cfg) @ ascii ''/fallback-image.png'', [])
     \<and> getGmResponse cfg env r True = (canned_initial, r, [])
     \<and> getGmResponse cfg env r False = (canned_next, r, [])"
  by (simp add: generateImage_def getGmResponse_def fallback_image_def)

theorem fast_debug_fixed_witness:
  "FAST_DEBUG fast
   \<and> generateImage fast silent (ascii ''a door'')
       = (ascii ''https://game.example/fallback-image.png'', [])
   \<and> getGmResponse fast silent crowded True = (canned_initial, crowded, [])
   \<and> getGmResponse fast completing crowded False = (canned_next, crowded, [])"
  using fast_debug_fixed [of fast silent "ascii ''a door''" crowded]
    fast_debug_fixed [of fast completing "ascii ''a door''" crowded]
  by (simp add: fast_def str_of_def ascii_def)

subsection \<open>Memory compaction\<close>

text \<open>
  In fast-debug mode the memory update is never reached, and no room of a reachable state
  holds a memory entry.
\<close>

lemma getGmResponse_fast: "FAST_DEBUG cfg \<Longrightarrow> fst (snd (getGmResponse cfg env r b)) = r"
  by (simp add: getGmResponse_def)

lemma gm_narrate_memory_fast:
  "FAST_DEBUG cfg \<Longrightarrow>
     gameMemory (state (fst (snd (snd (gm_narrate cfg env room))))) = gameMemory (state room)"
  by (simp add: gm_narrate_def case_prod_beta getGmResponse_fast)

lemma gm_conclude_memory:
  "gameMemory (state (fst (gm_conclude r txt0 url room))) = gameMemory (state room)"
  by (simp add: gm_conclude_def level_complete_def push_history_def set_turn_def Let_def
      case_prod_beta)

lemma startGame_memory_fast:
  "FAST_DEBUG cfg \<Longrightarrow>
     gameMemory (state (store (fst (startGame cfg env s r)) a)) = gameMemory (state (store s a))"
  by (simp add: startGame_def push_history_def set_turn_def Let_def case_prod_beta getGmResponse_fast
      split: option.splits)

lemma nextTurn_memory:
  "gameMemory (state (store (fst (nextTurn cfg s r)) a)) = gameMemory (state (store s a))"
  by (simp add: nextTurn_def set_turn_def Let_def split: option.splits)

lemma action_memory_fast:
  "FAST_DEBUG cfg \<Longrightarrow>
     gameMemory (state (store (fst (action cfg env s x r ty msg)) a)) = gameMemory (state (store s a))"
  by (simp add: action_def Let_def case_prod_beta nextTurn_memory getGmResponse_fast push_history_def
      split: option.splits)

lemma disconnect_memory:
  "gameMemory (state (store (fst (snd (disconnect s x))) a)) = gameMemory (state (store s a))"
  by (auto simp: disconnect_def Let_def split: option.splits if_splits)

lemma socket_disconnect_memory:
  "gameMemory (state (store (fst (snd (socket_disconnect s x))) a)) = gameMemory (state (store s a))"
  using disconnect_memory [of "s\<lparr>connected := (connected s)(x := False)\<rparr>" x a]
  by (simp add: socket_disconnect_def)

lemma evict_old_memory:
  "gameMemory (state (store (fst (snd (evict_old s x u))) a)) = gameMemory (state (store s a))"
  by (simp add: evict_old_def socket_disconnect_memory split: option.splits)

lemma join_finish_memory_fast:
  "FAST_DEBUG cfg \<Longrightarrow>
     gameMemory (state (store (fst (snd (join_finish cfg env s r))) a)) = gameMemory (state (store s a))"
  by (simp add: join_finish_def Let_def case_prod_beta startGame_memory_fast split: option.splits)

lemma seat_first_no_memory: "no_memory s \<Longrightarrow> no_memory (seat_first s x r u)"
  by (simp add: no_memory_def seat_first_def new_room_def)

lemma arm_timeout_memory:
  "gameMemory (state (store (arm_timeout r s) a)) = gameMemory (state (store s a))"
  by (simp add: arm_timeout_def split: option.splits)

lemma seat_memory: "gameMemory (state (store (seat s x a) b)) = gameMemory (state (store s b))"
  by (simp add: seat_def)

lemma joinRoom_no_memory:
  assumes "FAST_DEBUG cfg" and "no_memory s"
  shows "no_memory (fst (snd (joinRoom cfg env s x r u)))"
proof (cases "rooms s r")
  case None
  have "no_memory (if \<not> DEBUG_MODE cfg then arm_timeout r (seat_first s x r u) else seat_first s x r u)"
    using seat_first_no_memory [OF assms(2), of x r u] by (simp add: no_memory_def arm_timeout_memory)
  then show ?thesis
    unfolding joinRoom_fresh [OF None] by (simp add: no_memory_def join_finish_memory_fast assms(1))
next
  case (Some b)
  show ?thesis
  proof (cases "length (players (store s b)) \<ge> getRequiredPlayersCount cfg \<and> x \<notin> set (players (store s b))")
    case True
    then show ?thesis using assms(2) joinRoom_full [OF Some, of cfg x env u] by simp
  next
    case False
    show ?thesis
      unfolding joinRoom_existing [OF Some False]
      using assms
      by (simp add: no_memory_def join_finish_memory_fast seat_memory register_user_frame
          evict_old_memory split: outcome.splits option.splits)
  qed
qed

lemma createRoom_no_memory:
  assumes "FAST_DEBUG cfg" and "no_memory s"
  shows "no_memory (fst (createRoom cfg env s x r u))"
  using assms seat_first_no_memory [OF assms(2), of x r u]
  by (simp add: createRoom_def Let_def case_prod_beta no_memory_def arm_timeout_memory
      startGame_memory_fast)

lemma fire_gm_timer_memory_fast:
  "FAST_DEBUG cfg \<Longrightarrow>
     gameMemory (state (store (fst (fire_gm_timer cfg env s k)) a)) = gameMemory (state (store s a))"
  by (simp add: fire_gm_timer_def Let_def case_prod_beta gm_narrate_memory_fast)

lemma resume_gm_pass_memory:
  "gameMemory (state (store (fst (resume_gm_pass s k)) a)) = gameMemory (state (store s a))"
  by (simp add: resume_gm_pass_def Let_def case_prod_beta gm_conclude_memory)

lemma step_no_memory:
  assumes "FAST_DEBUG cfg" and "no_memory s"
  shows "no_memory (fst (snd (step cfg env s i)))"
proof (cases i)
  case (Connection x)
  with assms show ?thesis by (simp add: step_def no_memory_def connection_frame)
next
  case (CreateRoom x r u)
  with assms createRoom_no_memory [OF assms, of env x r u] show ?thesis
    by (simp add: step_def case_prod_beta)
next
  case (JoinRoom x r u)
  with assms joinRoom_no_memory [OF assms, of env x r u] show ?thesis by (simp add: step_def)
next
  case (Action x r ty msg)
  with assms show ?thesis by (simp add: step_def case_prod_beta no_memory_def action_memory_fast)
next
  case (Disconnect x)
  with assms show ?thesis by (simp add: step_def no_memory_def socket_disconnect_memory)
next
  case (GmTimer k)
  with assms show ?thesis
    by (simp add: step_def case_prod_beta no_memory_def fire_gm_timer_memory_fast)
next
  case (GmResume k)
  with assms show ?thesis
    by (simp add: step_def case_prod_beta no_memory_def resume_gm_pass_memory)
next
  case (JoinTimer k)
  with assms show ?thesis by (simp add: step_def case_prod_beta no_memory_def fire_join_timer_frame)
qed


lemma fast_debug_no_memory: "reachable cfg s \<Longrightarrow> FAST_DEBUG cfg \<Longrightarrow> no_memory s"
proof (induction rule: reachable.induct)
  case reachable_init
  show ?case by (simp add: no_memory_def init_def new_room_def)
next
  case (reachable_step s env i s' e)
  with step_no_memory [of cfg s env i] show ?case by simp
qed




subsection \<open>Capacity of a room\<close>

lemma joinRoom_seated:
  assumes "rooms s r = Some a" and "x \<in> set (players (store s a))"
  shows "length (players (store (fst (snd (joinRoom cfg env s x r u))) a))
           \<le> length (players (store s a))
       \<and> count_list (players (store (fst (snd (joinRoom cfg env s x r u))) a)) x
           = count_list (players (store s a)) x"
proof -
  let ?s1 = "fst (snd (evict_old s x u))"
  have nf: "\<not> (length (players (store s a)) \<ge> getRequiredPlayersCount cfg
              \<and> x \<notin> set (players (store s a)))"
    using assms(2) by simp
  have p1: "length (players (store ?s1 a)) \<le> length (players (store s a))
          \<and> count_list (players (store ?s1 a)) x = count_list (players (store s a)) x
          \<and> x \<in> set (players (store ?s1 a))"
  proof -
    from evict_old_players [of s x u a] show ?thesis
    proof (elim disjE exE conjE)
      assume "players (store ?s1 a) = players (store s a)"
      with assms(2) show ?thesis by simp
    next
      fix y
      assume y: "y \<noteq> x" and eq: "players (store ?s1 a) = remove1 y (players (store s a))"
      have "count_list (remove1 y (players (store s a))) x = count_list (players (store s a)) x"
        using y by (induction "players (store s a)") auto
      moreover have "length (remove1 y (players (store s a))) \<le> length (players (store s a))"
        by (simp add: length_remove1)
      ultimately show ?thesis using eq assms(2) y by simp
    qed
  qed
  have same: "rooms ?s1 r = Some a' \<Longrightarrow> a' = a" for a'
    using evict_old_rooms [of s x u r a'] assms(1) by simp
  have "players (store (fst (snd (joinRoom cfg env s x r u))) a) = players (store ?s1 a)"
    unfolding joinRoom_existing [OF assms(1) nf]
    using p1 same
    by (auto simp: join_finish_frame seat_players register_user_frame
        split: outcome.splits option.splits)
  with p1 show ?thesis by simp
qed

text \<open>
  Claim C6. A join against a room of the registry: when the room holds at least the
  required number of players (1 in debug mode, 3 otherwise) and the socket is not among
  them, the join is rejected with the "room is full" error and the state, the players with
  it, is unchanged. When the socket is seated already, the join adds no seat: the room has
  no more players than before and the socket is in the list as often as before. And in
  every state the server can reach, no room holds more players than required.
\<close>

theorem joinRoom_capacity:
  assumes "rooms s r = Some a"
  shows "(getRequiredPlayersCount cfg \<le> length (players (store s a))
            \<and> x \<notin> set (players (store s a))
            \<longrightarrow> joinRoom cfg env s x r u = (Returned, s, [ToSocket x (ErrorEvent RoomFull)]))
       \<and> (x \<in> set (players (store s a))
            \<longrightarrow> length (players (store (fst (snd (joinRoom cfg env s x r u))) a))
                  \<le> length (players (store s a))
               \<and> count_list (players (store (fst (snd (joinRoom cfg env s x r u))) a)) x
                  = count_list (players (store s a)) x)
       \<and> (reachable cfg s \<longrightarrow> length (players (store s a)) \<le> getRequiredPlayersCount cfg)"
  using joinRoom_full [OF assms, of cfg x env u] joinRoom_seated [OF assms, of x cfg env u]
    reachable_ok [of cfg s]
  by (auto simp: seats_ok_def)

text \<open>
  Three players are seated in standard mode: a fourth socket is turned away, and the
  second player joining again stays seated once.
\<close>

theorem joinRoom_capacity_witness:
  "rooms playing lobby = Some 0
   \<and> getRequiredPlayersCount standard \<le> length (players (store playing 0))
   \<and> dave \<notin> set (players (store playing 0))
   \<and> joinRoom standard silent playing dave lobby (Some (ascii ''dave''))
       = (Returned, playing, [ToSocket dave (ErrorEvent RoomFull)])
   \<and> bob \<in> set (players (store playing 0))
   \<and> count_list (players (store (fst (snd (joinRoom standard silent playing bob lobby
         (Some (ascii ''bob''))))) 0)) bob = 1
   \<and> reachable standard playing
   \<and> length (players (store playing 0)) \<le> 3"
proof -
  have ne: "dave \<noteq> alice" "dave \<noteq> bob" "dave \<noteq> carol" "alice \<noteq> bob" "bob \<noteq> carol"
    by (simp_all add: scenario_defs)
  have req: "getRequiredPlayersCount standard = 3"
    by (simp add: getRequiredPlayersCount_def standard_def)
  from joinRoom_capacity [OF playing_facts(1), of standard dave silent "Some (ascii ''dave'')"]
    joinRoom_capacity [OF playing_facts(1), of standard bob silent "Some (ascii ''bob'')"]
    playing_facts ne playing_reachable req
  show ?thesis by simp
qed

subsection \<open>Leaving a room\<close>

text \<open>
  What the disconnect handler does for the room the socket's \<^verbatim>\<open>roomId\<close> names, when the
  id is not empty and the socket sits in the room: the socket is taken out of the players.
  When it was the last player the id is deleted and the handler returns. When players
  remain the handler throws on its read of the undeclared variable \<^verbatim>\<open>roomId\<close>
  (\<^verbatim>\<open>src/app/index.js\<close> reads \<^verbatim>\<open>socket.roomId\<close> there), and nothing catches it.
\<close>

lemma disconnect_removes:
  assumes "roomId s x = Some r" and "r \<noteq> []" and "rooms s r = Some a"
    and "x \<in> set (players (store s a))"
  shows "players (store (fst (snd (disconnect s x))) a) = remove1 x (players (store s a))"
    and "rooms (fst (snd (disconnect s x))) r =
           (if remove1 x (players (store s a)) = [] then None else Some a)"
    and "fst (disconnect s x) =
           (if remove1 x (players (store s a)) = [] then Returned else Uncaught ReferenceError)"
  using assms
  by (simp_all add: disconnect_def Let_def truthy_def str_of_def findIndex_absent
      findIndex_splice)

text \<open>In every state the server can reach, a room of the registry has a player in its list.\<close>

lemma registry_rooms_nonempty:
  "reachable cfg s \<Longrightarrow> rooms s r = Some a \<Longrightarrow> players (store s a) \<noteq> []"
  using reachable_ok [of cfg s] by (auto simp: registry_ok_def)

text \<open>With three players seated, the second one leaves: the handler throws.\<close>

lemma disconnect_throws_in_company:
  "fst (step standard silent playing (Disconnect bob)) = Uncaught ReferenceError
   \<and> players (store (fst (snd (step standard silent playing (Disconnect bob)))) 0) = [alice, carol]"
  by (simp add: playing_def handler_defs scenario_defs Let_def)

text \<open>
  Claim C7. Every disconnect of a connection seated in a room should take the connection
  out of that room's players and delete the room when it was the last player, so that
  no room stays behind without a live player. The handler looks only at the room the
  socket's \<^verbatim>\<open>roomId\<close> names, and the join handler, unlike \<^verbatim>\<open>createRoom\<close>, lets a socket
  that is in a room enter another one without leaving the first. So for a socket that
  joined two rooms the second join moves its \<^verbatim>\<open>roomId\<close> and leaves its seat in the first
  room; when the connection closes, the second room is emptied and deleted, and the first
  room stays in the registry with the closed socket as its only player.
\<close>

theorem seat_survives_disconnect:
  "rooms wandering lobby = Some 0
   \<and> players (store wandering 0) = [alice]
   \<and> roomId wandering alice = Some cellar
   \<and> connected wandering alice
   \<and> fst (step standard silent wandering (Disconnect alice)) = Returned
   \<and> connected (fst (snd (step standard silent wandering (Disconnect alice)))) alice = False
   \<and> rooms (fst (snd (step standard silent wandering (Disconnect alice)))) cellar = None
   \<and> rooms (fst (snd (step standard silent wandering (Disconnect alice)))) lobby = Some 0
   \<and> players (store (fst (snd (step standard silent wandering (Disconnect alice)))) 0) = [alice]"
  by (simp add: wandering_def handler_defs scenario_defs Let_def)

end
